theory Spec2Isabelle
  imports Complex_Main "HOL-Library.Word" "HOL-Library.AList"
begin

unbundle bit_operations_syntax

section \<open>Python values: bytes, errors, floats\<close>

type_synonym byte = "8 word"

text \<open>
  A Python float read with \<open>struct.unpack('<f', ...)\<close>: a finite number, an infinity
  (\<open>Inf True\<close> is the negative one) or a NaN. A finite float is the real number it
  denotes (minus zero is zero). The arithmetic of \<open>check_metadata\<close> is exact here and
  rounded to 53 bits in Python; its only use is a comparison of the quotient with an
  integer below \<open>2 ^ 16\<close>, and the product of such an integer with a 24-bit
  significand, divided by a 24-bit significand, is that integer after rounding only if
  it is that integer before.
\<close>

datatype pyfloat = Fin real | Inf bool | NaN

text \<open>The exceptions the modelled code raises; an \<open>assert\<close> that fails raises
  \<open>AssertionError\<close> with the values its message is formatted from.\<close>

datatype assertion =
    BadMagic nat
  | InconsistentPointCount int int
  | InconsistentScaleFactor pyfloat pyfloat
  | InconsistentFrameRate pyfloat pyfloat
  | InconsistentAnalogCount int int pyfloat pyfloat
  | InconsistentDataBlock int int

datatype pyerror =
    AssertionError assertion
  | StructError
  | ValueError
  | KeyError
  | AttributeError
  | UnicodeDecodeError
  | ZeroDivisionError
  | TypeError
  | IndexError
  | IOError

text \<open>\<open>struct.unpack\<close> of little-endian fields: \<open>'B'\<close> and \<open>'b'\<close> (one byte,
  unsigned and signed), \<open>'<H'\<close> and \<open>'<h'\<close> (two bytes), \<open>'<i'\<close> (four bytes).\<close>

definition uint8 :: "byte \<Rightarrow> int" where
  "uint8 b = uint b"

definition int8 :: "byte \<Rightarrow> int" where
  "int8 b = (if uint b < 128 then uint b else uint b - 256)"

definition uint16 :: "byte \<Rightarrow> byte \<Rightarrow> int" where
  "uint16 lo hi = uint lo + 256 * uint hi"

definition int16 :: "byte \<Rightarrow> byte \<Rightarrow> int" where
  "int16 lo hi = (if uint16 lo hi < 32768 then uint16 lo hi else uint16 lo hi - 65536)"

definition uint32 :: "byte \<Rightarrow> byte \<Rightarrow> byte \<Rightarrow> byte \<Rightarrow> int" where
  "uint32 b0 b1 b2 b3 = uint b0 + 256 * uint b1 + 65536 * uint b2 + 16777216 * uint b3"

definition int32 :: "byte \<Rightarrow> byte \<Rightarrow> byte \<Rightarrow> byte \<Rightarrow> int" where
  "int32 b0 b1 b2 b3 =
    (if uint32 b0 b1 b2 b3 < 2147483648 then uint32 b0 b1 b2 b3
     else uint32 b0 b1 b2 b3 - 4294967296)"

text \<open>\<open>'<f'\<close>: an IEEE 754 single, from its four bytes: one sign bit, eight exponent
  bits, twenty-three fraction bits.\<close>

definition float32 :: "byte \<Rightarrow> byte \<Rightarrow> byte \<Rightarrow> byte \<Rightarrow> pyfloat" where
  "float32 b0 b1 b2 b3 =
    (let u = nat (uint32 b0 b1 b2 b3);
         negative = (2147483648 \<le> u);
         e = (u div 8388608) mod 256;
         m = u mod 8388608;
         s = (if negative then - 1 else 1 :: real)
     in if e = 255 then (if m = 0 then Inf negative else NaN)
        else if e = 0 then Fin (s * real m / 2 ^ 149)
        else if 150 \<le> e then Fin (s * real (8388608 + m) * 2 ^ (e - 150))
        else Fin (s * real (8388608 + m) / 2 ^ (150 - e)))"

text \<open>Python's \<open>==\<close> and \<open><\<close> on floats, \<open>int * float\<close> and \<open>float / float\<close>.\<close>

fun float_eq :: "pyfloat \<Rightarrow> pyfloat \<Rightarrow> bool" where
  "float_eq (Fin a) (Fin b) = (a = b)"
| "float_eq (Inf s) (Inf t) = (s = t)"
| "float_eq _ _ = False"

fun int_eq_float :: "int \<Rightarrow> pyfloat \<Rightarrow> bool" where
  "int_eq_float n (Fin a) = (real_of_int n = a)"
| "int_eq_float n _ = False"

fun int_mul_float :: "int \<Rightarrow> pyfloat \<Rightarrow> pyfloat" where
  "int_mul_float n (Fin a) = Fin (real_of_int n * a)"
| "int_mul_float n (Inf s) = (if n = 0 then NaN else Inf (s \<noteq> (n < 0)))"
| "int_mul_float n NaN = NaN"

fun float_div :: "pyfloat \<Rightarrow> pyfloat \<Rightarrow> pyerror + pyfloat" where
  "float_div a (Fin b) =
    (if b = 0 then Inl ZeroDivisionError
     else case a of
       Fin x \<Rightarrow> Inr (Fin (x / b))
     | Inf s \<Rightarrow> Inr (Inf (s \<noteq> (b < 0)))
     | NaN \<Rightarrow> Inr NaN)"
| "float_div a (Inf t) = (case a of Fin x \<Rightarrow> Inr (Fin 0) | _ \<Rightarrow> Inr NaN)"
| "float_div a NaN = Inr NaN"

section \<open>Frame data: the point records of \<open>Reader.read_frames\<close>\<close>

text \<open>
  \<open>np.fromfile(handle, dtype=point_dtype, ...)\<close> yields an array whose elements are
  16-bit signed integers (\<open>np.int16\<close>, when POINT:SCALE is not negative) or 32-bit floats
  (\<open>np.float32\<close>, when it is negative). One element of that array is a \<open>raw\<close> value; a
  float element is any value of four bytes: finite, infinite or a NaN. A finite float
  is the real number it denotes; every operation the decoder applies to it (comparison
  with -1, multiplication of a 16-bit integer or of an 8-bit integer by the 24-bit
  significand of the scale, multiplication of a float by 1, truncation) is exact on
  64-bit floats. \<open>sf\<close> below is \<open>self.scale_factor()\<close>, a finite float.
\<close>

datatype raw = I16 "16 word" | F32 pyfloat

text \<open>\<open>float * float\<close> for a finite second factor.\<close>

fun float_times :: "pyfloat \<Rightarrow> real \<Rightarrow> pyfloat" where
  "float_times (Fin a) x = Fin (a * x)"
| "float_times (Inf s) x = (if x = 0 then NaN else Inf (s \<noteq> (x < 0)))"
| "float_times NaN x = NaN"

text \<open>One element of \<open>raw[:, :3] * point_scale\<close>.\<close>

fun times_scale :: "raw \<Rightarrow> real \<Rightarrow> pyfloat" where
  "times_scale (I16 w) x = Fin (real_of_int (sint w) * x)"
| "times_scale (F32 f) x = float_times f x"

text \<open>One element of \<open>raw[:, 3] > -1\<close>; a comparison with a NaN is false.\<close>

fun greater_minus1 :: "raw \<Rightarrow> bool" where
  "greater_minus1 (I16 w) = (- 1 < sint w)"
| "greater_minus1 (F32 (Fin r)) = (- 1 < r)"
| "greater_minus1 (F32 (Inf negative)) = (\<not> negative)"
| "greater_minus1 (F32 NaN) = False"

text \<open>Rounding towards zero, the rule of a C cast from a float to an integer.\<close>

definition trunc :: "real \<Rightarrow> int" where
  "trunc r = (if 0 \<le> r then \<lfloor>r\<rfloor> else \<lceil>r\<rceil>)"

text \<open>
  One element of \<open>.astype(np.uint16)\<close>. An \<open>int16\<close> keeps its sixteen bits. A float is
  converted by a C cast: a finite float whose truncation is in the range 0 to 65535
  gives that truncation. For every other float (a finite one beyond that range, an
  infinity, a NaN) C leaves the result of the cast undefined and numpy does not fix
  it: it is whatever the platform yields, and the model takes it as the parameter
  \<open>beyond\<close>.
\<close>

fun astype_uint16 :: "(pyfloat \<Rightarrow> 16 word) \<Rightarrow> raw \<Rightarrow> 16 word" where
  "astype_uint16 beyond (I16 w) = w"
| "astype_uint16 beyond (F32 (Fin r)) =
    (if 0 \<le> trunc r \<and> trunc r < 65536 then word_of_int (trunc r) else beyond (Fin r))"
| "astype_uint16 beyond (F32 (Inf negative)) = beyond (Inf negative)"
| "astype_uint16 beyond (F32 NaN) = beyond NaN"

text \<open>\<open>sum((c & (1 << k)) >> k for k in range(8, 17))\<close>, on the value of \<open>c\<close>.\<close>

definition camera_bits :: "16 word \<Rightarrow> int" where
  "camera_bits c = (\<Sum>k\<leftarrow>[8..<17]. drop_bit k (uint c AND push_bit k 1))"

text \<open>
  One row of \<open>points\<close> after one pass of the loop body of \<open>read_frames\<close>, from one row
  of \<open>raw\<close>: three coordinates, the residual error and the camera count. \<open>sf\<close> is
  \<open>self.scale_factor()\<close>, the POINT:SCALE parameter. The cast is applied to the valid
  rows only; the other rows never use \<open>c\<close>.
\<close>

type_synonym decoded = "pyfloat \<times> pyfloat \<times> pyfloat \<times> real \<times> real"

definition read_point ::
    "(pyfloat \<Rightarrow> 16 word) \<Rightarrow> real \<Rightarrow> raw \<times> raw \<times> raw \<times> raw \<Rightarrow> decoded" where
  "read_point beyond sf row =
    (case row of (r0, r1, r2, r3) \<Rightarrow>
      let scale = \<bar>sf\<bar>;
          is_float = (sf < 0);
          point_scale = (if is_float then 1 else scale);
          valid = greater_minus1 r3;
          c = astype_uint16 beyond r3
      in (times_scale r0 point_scale, times_scale r1 point_scale, times_scale r2 point_scale,
          if valid then real_of_int (uint (c AND 0xff)) * scale else -1,
          if valid then real_of_int (camera_bits c) else -1))"

definition residual :: "decoded \<Rightarrow> real" where
  "residual p = (case p of (x, y, z, e, n) \<Rightarrow> e)"

definition cameras :: "decoded \<Rightarrow> real" where
  "cameras p = (case p of (x, y, z, e, n) \<Rightarrow> n)"

section \<open>Frame data: \<open>Writer._write_frames\<close>\<close>

text \<open>
  A row of the caller's \<open>points\<close> array is (x, y, z, residual error, camera count); a row
  of the buffer \<open>raw = np.empty((ppf, 4))\<close> is four 64-bit floats. The buffer is
  allocated once, before the loop, with whatever content the memory has, and is reused
  for every frame.
\<close>

type_synonym point = "real \<times> real \<times> real \<times> real \<times> real"

type_synonym rawrow = "real \<times> real \<times> real \<times> real"

text \<open>\<open>.astype(np.uint8)\<close> and \<open>.astype(np.uint16)\<close> of a 64-bit float: the float
  rounded towards zero, for a float whose truncation is in the range of the target
  type, as in every frame evaluated below. (Beyond that range the result of the cast
  depends on the platform; these two definitions keep the low bits there.)\<close>

definition float_astype_uint8 :: "real \<Rightarrow> 8 word" where
  "float_astype_uint8 r = word_of_int (trunc r)"

definition float_astype_uint16 :: "real \<Rightarrow> 16 word" where
  "float_astype_uint16 r = word_of_int (trunc r)"

text \<open>
  The effect of the three masked assignments of the loop body on one row. \<open>sf\<close> is
  \<open>self.scale_factor()\<close> (the POINT:SCALE parameter) and \<open>psf\<close> is the attribute
  \<open>self.point_scale_factor\<close>; \<open>check_metadata\<close> has compared the two before any frame
  is written. The shift \<open><< 8\<close> is applied to an array of \<open>np.uint8\<close> and stays in
  eight bits; the \<open>|\<close> with an array of \<open>np.uint16\<close> widens it. A row that is not
  valid keeps the three coordinates the buffer held. (numpy divides by zero without
  raising and yields an infinity or a NaN, which are not values of this model: the
  rows below are meaningful for \<open>psf \<noteq> 0\<close> and \<open>sf \<noteq> 0\<close>.)
\<close>

definition write_row :: "real \<Rightarrow> real \<Rightarrow> point \<Rightarrow> rawrow \<Rightarrow> rawrow" where
  "write_row sf psf p old =
    (case p of (x, y, z, e, n) \<Rightarrow>
     case old of (o0, o1, o2, o3) \<Rightarrow>
      let scale = \<bar>sf\<bar>;
          valid = (e > -1)
      in if valid
         then (x / psf, y / psf, z / psf,
               real (unat ((ucast (push_bit 8 (float_astype_uint8 n) :: 8 word) :: 16 word)
                             OR float_astype_uint16 (e / scale))))
         else (o0, o1, o2, -1))"

definition flatten :: "rawrow list \<Rightarrow> real list" where
  "flatten rows = concat (map (\<lambda>(a, b, c, d). [a, b, c, d]) rows)"

text \<open>
  One pass of the loop: the new buffer and the numbers written to the handle.
  A boolean mask of the wrong length raises IndexError. \<open>point_format\<close> is \<open>'f'\<close> for
  float storage and \<open>'i'\<close> otherwise, and an \<open>array.array('i')\<close> refuses to be extended
  with floats (TypeError). The name \<open>analog\<close> is rebound to a new, empty array, which
  is then extended with itself and written.
\<close>

definition write_frame ::
    "real \<Rightarrow> real \<Rightarrow> rawrow list \<Rightarrow> point list \<times> real list list
      \<Rightarrow> pyerror + rawrow list \<times> real list" where
  "write_frame sf psf raw frame =
    (case frame of (points, analog) \<Rightarrow>
      if length points \<noteq> length raw then Inl IndexError
      else
        let is_float = (sf < 0);
            raw' = map2 (write_row sf psf) points raw;
            point = flatten raw'
        in if \<not> is_float \<and> point \<noteq> [] then Inl TypeError
           else
             let analog' = ([] :: real list);
                 analog'' = analog' @ analog'
             in Inr (raw', point @ analog''))"

text \<open>The loop over \<open>self._frames\<close>; the result is everything written before the
  final padding.\<close>

fun write_frames ::
    "real \<Rightarrow> real \<Rightarrow> rawrow list \<Rightarrow> (point list \<times> real list list) list
      \<Rightarrow> pyerror + real list" where
  "write_frames sf psf raw [] = Inr []"
| "write_frames sf psf raw (f # fs) =
    (case write_frame sf psf raw f of
       Inl e \<Rightarrow> Inl e
     | Inr (raw', out) \<Rightarrow>
         (case write_frames sf psf raw' fs of
            Inl e \<Rightarrow> Inl e
          | Inr rest \<Rightarrow> Inr (out @ rest)))"

text \<open>What the reader makes of one frame of float storage with no analog channel:
  \<open>np.fromfile\<close> takes the numbers four by four. The numbers are those the writer
  wrote, finite floats.\<close>

fun read_points_float :: "(pyfloat \<Rightarrow> 16 word) \<Rightarrow> real \<Rightarrow> real list \<Rightarrow> decoded list" where
  "read_points_float beyond sf (a # b # c # d # rest) =
     read_point beyond sf (F32 (Fin a), F32 (Fin b), F32 (Fin c), F32 (Fin d))
       # read_points_float beyond sf rest"
| "read_points_float beyond sf _ = []"

section \<open>Strings\<close>

text \<open>
  Names and descriptions are Python string objects: byte strings (\<open>str\<close> literals, the
  result of \<open>read\<close>) and the \<open>unicode\<close> objects that \<open>decode('utf-8')\<close> returns; as
  dictionary keys, equal strings of the two kinds are the same key. \<open>'s\<close> is the type of
  such objects up to that equality, and the built-in operations the code applies to
  them are the fields of a \<open>pystr\<close>:
  \<^item> \<open>decode_utf8 b\<close> is \<open>b.decode('utf-8')\<close>, \<open>None\<close> when it raises;
  \<^item> \<open>upper s\<close> is \<open>s.upper()\<close>;
  \<^item> \<open>of_bytes b\<close> is the byte string \<open>b\<close> used as a string object;
  \<^item> \<open>encoded_len s\<close> is \<open>len(s.encode('utf-8'))\<close>, \<open>None\<close> when \<open>encode\<close> raises.
\<close>

record 's pystr =
  decode_utf8 :: "byte list \<Rightarrow> 's option"
  upper :: "'s \<Rightarrow> 's"
  of_bytes :: "byte list \<Rightarrow> 's"
  encoded_len :: "'s \<Rightarrow> nat option"

text \<open>The operations on byte strings of ASCII characters, where Python's agree with
  these; the concrete inputs below are evaluated with them.\<close>

definition ascii_upper :: "byte \<Rightarrow> byte" where
  "ascii_upper b = (if 0x61 \<le> b \<and> b \<le> 0x7a then b - 0x20 else b)"

definition is_ascii :: "byte list \<Rightarrow> bool" where
  "is_ascii bs = list_all (\<lambda>b. b < 0x80) bs"

definition ascii :: "byte list pystr" where
  "ascii = \<lparr> decode_utf8 = (\<lambda>bs. if is_ascii bs then Some bs else None),
             upper = map ascii_upper,
             of_bytes = (\<lambda>bs. bs),
             encoded_len = (\<lambda>s. if is_ascii s then Some (length s) else None) \<rparr>"

section \<open>The parameter directory: \<open>Param\<close>, \<open>Group\<close>, \<open>Manager\<close>\<close>

record 's param =
  p_name :: 's
  p_desc :: 's
  bytes_per_element :: int
  dimensions :: "nat list"
  p_bytes :: "byte list"

text \<open>A \<open>Group\<close>; \<open>params\<close> is its dictionary, in insertion order. \<open>Group()\<close> has the
  name and the description \<open>None\<close>.\<close>

record 's group =
  g_name :: "'s option"
  g_desc :: "'s option"
  params :: "('s \<times> 's param) list"

definition Group :: "'s option \<Rightarrow> 's option \<Rightarrow> 's group" where
  "Group nm d = \<lparr> g_name = nm, g_desc = d, params = [] \<rparr>"

record header =
  label_block :: int
  parameter_block :: int
  data_block :: int
  point_count :: int
  analog_count :: int
  first_frame :: int
  last_frame :: int
  sample_per_frame :: int
  frame_rate :: pyfloat
  max_gap :: int
  scale_factor :: pyfloat
  long_event_labels :: int

text \<open>\<open>Header()\<close> without a handle (\<open>long_event_labels = False\<close> is 0).\<close>

definition Header_default :: header where
  "Header_default = \<lparr> label_block = 0, parameter_block = 2, data_block = 3,
     point_count = 50, analog_count = 0, first_frame = 1, last_frame = 1,
     sample_per_frame = 0, frame_rate = Fin 60, max_gap = 0, scale_factor = Fin (- 1),
     long_event_labels = 0 \<rparr>"

text \<open>
  \<open>Manager.groups\<close> is one dictionary whose keys are group numbers and group names; a
  group that has both is one object, reached under two keys. The objects live in
  \<open>heap\<close>, at addresses below \<open>fresh\<close>, and the dictionary holds addresses, in
  insertion order.
\<close>

datatype 's key = ById int | ByName 's

record 's manager =
  header :: header
  heap :: "nat \<Rightarrow> 's group"
  fresh :: nat
  groups :: "('s key \<times> nat) list"

definition Manager :: "header \<Rightarrow> 's manager" where
  "Manager h = \<lparr> header = h, heap = (\<lambda>a. Group None None), fresh = 0, groups = [] \<rparr>"

definition num_elements :: "'s param \<Rightarrow> nat" where
  "num_elements p = prod_list (dimensions p)"

definition total_bytes :: "'s param \<Rightarrow> nat" where
  "total_bytes p = num_elements p * nat \<bar>bytes_per_element p\<bar>"

definition Param_binary_size :: "'s pystr \<Rightarrow> 's param \<Rightarrow> pyerror + nat" where
  "Param_binary_size S p =
    (case encoded_len S (p_name p) of
       None \<Rightarrow> Inl UnicodeDecodeError
     | Some n \<Rightarrow>
        (case encoded_len S (p_desc p) of
           None \<Rightarrow> Inl UnicodeDecodeError
         | Some d \<Rightarrow>
             Inr (1 + 2 + 1 + n + 1 + 1 + length (dimensions p) + total_bytes p + 1 + d)))"

text \<open>\<open>sum(f(x) for x in xs)\<close>, stopping at the first exception.\<close>

fun sum_sizes :: "('a \<Rightarrow> pyerror + nat) \<Rightarrow> 'a list \<Rightarrow> pyerror + nat" where
  "sum_sizes f [] = Inr 0"
| "sum_sizes f (x # xs) =
    (case f x of
       Inl e \<Rightarrow> Inl e
     | Inr n \<Rightarrow> (case sum_sizes f xs of Inl e \<Rightarrow> Inl e | Inr k \<Rightarrow> Inr (n + k)))"

text \<open>\<open>Group.binary_size\<close>; a name or description that is \<open>None\<close> has no \<open>encode\<close>.\<close>

definition Group_binary_size :: "'s pystr \<Rightarrow> 's group \<Rightarrow> pyerror + nat" where
  "Group_binary_size S g =
    (case g_name g of
       None \<Rightarrow> Inl AttributeError
     | Some nm \<Rightarrow>
        (case encoded_len S nm of
           None \<Rightarrow> Inl UnicodeDecodeError
         | Some n \<Rightarrow>
            (case g_desc g of
               None \<Rightarrow> Inl AttributeError
             | Some ds \<Rightarrow>
                (case encoded_len S ds of
                   None \<Rightarrow> Inl UnicodeDecodeError
                 | Some d \<Rightarrow>
                    (case sum_sizes (Param_binary_size S) (map snd (params g)) of
                       Inl e \<Rightarrow> Inl e
                     | Inr ps \<Rightarrow> Inr (1 + 1 + n + 2 + 1 + d + ps))))))"

text \<open>\<open>Manager.parameter_blocks\<close>: the sum runs over \<open>self.groups.values()\<close>, one value
  for every key of the dictionary.\<close>

definition parameter_blocks :: "'s pystr \<Rightarrow> 's manager \<Rightarrow> pyerror + nat" where
  "parameter_blocks S m =
    (case sum_sizes (\<lambda>a. Group_binary_size S (heap m a)) (map snd (groups m)) of
       Inl e \<Rightarrow> Inl e
     | Inr n \<Rightarrow> Inr (nat \<lceil>(4 + real n) / 512\<rceil>))"

text \<open>\<open>Manager.add_group\<close>: what the call returns (the address of the new group) or
  raises, and the manager afterwards.\<close>

definition add_group ::
    "'s pystr \<Rightarrow> 's manager \<Rightarrow> int \<Rightarrow> 's \<Rightarrow> 's \<Rightarrow> (pyerror + nat) \<times> 's manager" where
  "add_group S m group_id name desc =
    (if map_of (groups m) (ById group_id) \<noteq> None then (Inl KeyError, m)
     else
       let name = upper S name in
       if map_of (groups m) (ByName name) \<noteq> None then (Inl KeyError, m)
       else
         let a = fresh m in
         (Inr a, m \<lparr> heap := (heap m) (a := Group (Some name) (Some desc)),
                      fresh := Suc a,
                      groups := AList.update (ById group_id) a
                                  (AList.update (ByName name) a (groups m)) \<rparr>))"

text \<open>Every address the dictionary holds has been allocated.\<close>

definition allocated :: "'s manager \<Rightarrow> bool" where
  "allocated m = list_all (\<lambda>a. a < fresh m) (map snd (groups m))"

section \<open>Decoding the directory: \<open>Param.read\<close> and the loop of \<open>Reader.__init__\<close>\<close>

text \<open>
  \<open>buf\<close> is what is left of the \<open>BytesIO\<close> at the cursor. \<open>read(n)\<close> returns at most
  \<open>n\<close> bytes and fewer at the end of the buffer; \<open>struct.unpack\<close> raises when the bytes
  read are fewer than the format needs. A non-empty byte string decodes to a non-empty
  string, so \<open>size and handle.read(size).decode('utf-8') or ''\<close> is the empty string
  exactly when \<open>size\<close> is 0 or nothing is left to read.
\<close>

definition Param_read :: "'s pystr \<Rightarrow> 's \<Rightarrow> byte list \<Rightarrow> pyerror + 's param" where
  "Param_read S nm buf =
    (case buf of
       [] \<Rightarrow> Inl StructError
     | b # buf1 \<Rightarrow>
        (case buf1 of
           [] \<Rightarrow> Inl StructError
         | d # buf2 \<Rightarrow>
            let dims = nat (uint8 d) in
            if length buf2 < dims then Inl StructError
            else
              let p = \<lparr> p_name = nm, p_desc = of_bytes S [], bytes_per_element = int8 b,
                        dimensions = map (\<lambda>x. nat (uint8 x)) (take dims buf2), p_bytes = [] \<rparr>;
                  buf3 = drop dims buf2;
                  p = (if total_bytes p \<noteq> 0 then p \<lparr> p_bytes := take (total_bytes p) buf3 \<rparr> else p);
                  buf4 = (if total_bytes p \<noteq> 0 then drop (total_bytes p) buf3 else buf3)
              in (case buf4 of
                    [] \<Rightarrow> Inl StructError
                  | sz # buf5 \<Rightarrow>
                     let size = nat (uint8 sz) in
                     if size = 0 \<or> buf5 = [] then Inr p
                     else (case decode_utf8 S (take size buf5) of
                             None \<Rightarrow> Inl UnicodeDecodeError
                           | Some ds \<Rightarrow> Inr (p \<lparr> p_desc := ds \<rparr>)))))"

text \<open>\<open>Group.add_param(name, handle=buf)\<close>, the only form the reader calls.\<close>

definition add_param :: "'s pystr \<Rightarrow> 's group \<Rightarrow> 's \<Rightarrow> byte list \<Rightarrow> pyerror + 's group" where
  "add_param S g name buf =
    (case Param_read S (upper S name) buf of
       Inl e \<Rightarrow> Inl e
     | Inr p \<Rightarrow> Inr (g \<lparr> params := AList.update (upper S name) p (params g) \<rparr>))"

text \<open>\<open>self.groups.setdefault(group_id, Group())\<close>: the manager afterwards and the
  address of the group under the key. (Python builds the \<open>Group()\<close> also when the key
  exists and drops it; no address is spent on it here.)\<close>

definition setdefault_group :: "'s manager \<Rightarrow> int \<Rightarrow> 's manager \<times> nat" where
  "setdefault_group m group_id =
    (case map_of (groups m) (ById group_id) of
       Some a \<Rightarrow> (m, a)
     | None \<Rightarrow>
        let a = fresh m in
        (m \<lparr> heap := (heap m) (a := Group None None), fresh := Suc a,
             groups := AList.update (ById group_id) a (groups m) \<rparr>, a))"

text \<open>The branch \<open>group_id > 0\<close> of the loop body.\<close>

definition read_parameter :: "'s pystr \<Rightarrow> 's manager \<Rightarrow> int \<Rightarrow> 's \<Rightarrow> byte list \<Rightarrow> pyerror + 's manager" where
  "read_parameter S m group_id name buf =
    (case setdefault_group m group_id of
       (m1, a) \<Rightarrow>
         (case add_param S (heap m1 a) name buf of
            Inl e \<Rightarrow> Inl e
          | Inr g \<Rightarrow> Inr (m1 \<lparr> heap := (heap m1) (a := g) \<rparr>)))"

text \<open>The other branch, with \<open>group_id\<close> already replaced by its absolute value.\<close>

definition read_group :: "'s pystr \<Rightarrow> 's manager \<Rightarrow> int \<Rightarrow> 's \<Rightarrow> byte list \<Rightarrow> pyerror + 's manager" where
  "read_group S m group_id name buf =
    (case buf of
       [] \<Rightarrow> Inl StructError
     | sz # buf1 \<Rightarrow>
        let size = nat (uint8 sz);
            desc = of_bytes S (if size \<noteq> 0 then take size buf1 else [])
        in (case map_of (groups m) (ById group_id) of
              Some a \<Rightarrow>
                Inr (m \<lparr> heap := (heap m) (a := (heap m a) \<lparr> g_name := Some name, g_desc := Some desc \<rparr>),
                         groups := AList.update (ByName name) a (groups m) \<rparr>)
            | None \<Rightarrow>
                (case add_group S m group_id name desc of
                   (Inl e, m1) \<Rightarrow> Inl e
                 | (Inr a, m1) \<Rightarrow> Inr m1)))"

text \<open>Python's slice \<open>xs[i:]\<close>: a negative \<open>i\<close> counts from the end.\<close>

definition slice_from :: "int \<Rightarrow> 'a list \<Rightarrow> 'a list" where
  "slice_from i xs = (if 0 \<le> i then drop (nat i) xs else drop (nat (int (length xs) + i)) xs)"

text \<open>
  One pass of the loop \<open>while bytes:\<close> on a non-empty \<open>bytes\<close>: an exception, the
  \<open>break\<close>, or the manager and the \<open>bytes\<close> of the next pass.
\<close>

datatype 's step = Break | Next "'s manager" "byte list"

definition read_record :: "'s pystr \<Rightarrow> 's manager \<Rightarrow> byte list \<Rightarrow> pyerror + 's step" where
  "read_record S m bytes =
    (case bytes of
       b0 # b1 # buf \<Rightarrow>
         let chars_in_name = int8 b0;
             group_id = int8 b1
         in if group_id = 0 \<or> chars_in_name = 0 then Inr Break
            else
              (case decode_utf8 S (take (nat \<bar>chars_in_name\<bar>) buf) of
                 None \<Rightarrow> Inl UnicodeDecodeError
               | Some u \<Rightarrow>
                  let name = upper S u in
                  (case drop (nat \<bar>chars_in_name\<bar>) buf of
                     o0 # o1 # buf2 \<Rightarrow>
                       let offset_to_next = int16 o0 o1 in
                       (case (if group_id > 0 then read_parameter S m group_id name buf2
                              else read_group S m \<bar>group_id\<bar> name buf2) of
                          Inl e \<Rightarrow> Inl e
                        | Inr m' \<Rightarrow>
                            Inr (Next m' (slice_from (2 + \<bar>chars_in_name\<bar> + offset_to_next) bytes)))
                   | _ \<Rightarrow> Inl StructError))
     | _ \<Rightarrow> Inl StructError)"

text \<open>The loop, with fuel: \<open>None\<close> when \<open>n\<close> passes do not end it.\<close>

fun read_loop :: "nat \<Rightarrow> 's pystr \<Rightarrow> 's manager \<Rightarrow> byte list \<Rightarrow> (pyerror + 's manager) option" where
  "read_loop 0 S m bytes = None"
| "read_loop (Suc n) S m bytes =
    (if bytes = [] then Some (Inr m)
     else (case read_record S m bytes of
             Inl e \<Rightarrow> Some (Inl e)
           | Inr Break \<Rightarrow> Some (Inr m)
           | Inr (Next m' bytes') \<Rightarrow> read_loop n S m' bytes'))"

text \<open>The manager and the bytes at the start of pass \<open>k\<close> (counted from 0), when the
  loop gets there.\<close>

fun pass :: "nat \<Rightarrow> 's pystr \<Rightarrow> 's manager \<Rightarrow> byte list \<Rightarrow> ('s manager \<times> byte list) option" where
  "pass 0 S m bytes = (if bytes = [] then None else Some (m, bytes))"
| "pass (Suc k) S m bytes =
    (if bytes = [] then None
     else (case read_record S m bytes of
             Inr (Next m' bytes') \<Rightarrow> pass k S m' bytes'
           | _ \<Rightarrow> None))"

text \<open>The fields of the record that starts \<open>bytes\<close>, as the loop body reads them: the
  name-length byte, the group-id byte, the name and the offset field.\<close>

definition chars_in_name_of :: "byte list \<Rightarrow> int" where
  "chars_in_name_of bytes = (case bytes of b0 # rest \<Rightarrow> int8 b0 | [] \<Rightarrow> 0)"

definition group_id_of :: "byte list \<Rightarrow> int" where
  "group_id_of bytes = (case bytes of b0 # b1 # rest \<Rightarrow> int8 b1 | _ \<Rightarrow> 0)"

definition name_of :: "'s pystr \<Rightarrow> byte list \<Rightarrow> 's option" where
  "name_of S bytes =
    map_option (upper S) (decode_utf8 S (take (nat \<bar>chars_in_name_of bytes\<bar>) (drop 2 bytes)))"

definition offset_to_next_of :: "byte list \<Rightarrow> int" where
  "offset_to_next_of bytes =
    (case drop (2 + nat \<bar>chars_in_name_of bytes\<bar>) bytes of
       o0 # o1 # rest \<Rightarrow> int16 o0 o1
     | _ \<Rightarrow> 0)"

text \<open>The description of a group record: the bytes after the offset field.\<close>

definition group_desc_of :: "'s pystr \<Rightarrow> byte list \<Rightarrow> 's" where
  "group_desc_of S bytes =
    (case drop (4 + nat \<bar>chars_in_name_of bytes\<bar>) bytes of
       sz # rest \<Rightarrow> of_bytes S (take (nat (uint8 sz)) rest)
     | [] \<Rightarrow> of_bytes S [])"

section \<open>The file handle and \<open>Header.read\<close>\<close>

text \<open>
  A seekable, readable handle: the bytes of the file, the position, and a log of the
  reads made so far (where each started and how many bytes it asked for).
  \<open>read(n)\<close> returns the bytes from the position on, at most \<open>n\<close> of them, all of
  them when \<open>n\<close> is negative; \<open>seek\<close> to a negative position raises.
\<close>

record handle =
  content :: "byte list"
  pos :: nat
  reads :: "(nat \<times> int) list"

definition handle_seek :: "handle \<Rightarrow> int \<Rightarrow> (pyerror + unit) \<times> handle" where
  "handle_seek f n = (if n < 0 then (Inl IOError, f) else (Inr (), f \<lparr> pos := nat n \<rparr>))"

definition handle_read :: "handle \<Rightarrow> int \<Rightarrow> byte list \<times> handle" where
  "handle_read f n =
    (let rest = drop (pos f) (content f);
         bs = (if n < 0 then rest else take (nat n) rest)
     in (bs, f \<lparr> pos := pos f + length bs, reads := reads f @ [(pos f, n)] \<rparr>))"

text \<open>
  \<open>Header.read\<close>: \<open>struct.unpack('<BBHHHHHfHHf270sHH214s', handle.read(512))\<close>, then
  the \<open>assert\<close> on the magic byte. The result is the header read, or the exception.
\<close>

definition Header_read :: "handle \<Rightarrow> (pyerror + header) \<times> handle" where
  "Header_read f =
    (case handle_seek f 0 of
       (Inl e, f0) \<Rightarrow> (Inl e, f0)
     | (Inr u, f0) \<Rightarrow>
        (case handle_read f0 512 of
           (bs, f1) \<Rightarrow>
             if length bs \<noteq> 512 then (Inl StructError, f1)
             else
               let magic = uint8 (bs ! 1);
                   h = \<lparr> label_block = uint16 (bs ! 296) (bs ! 297),
                         parameter_block = uint8 (bs ! 0),
                         data_block = uint16 (bs ! 16) (bs ! 17),
                         point_count = uint16 (bs ! 2) (bs ! 3),
                         analog_count = uint16 (bs ! 4) (bs ! 5),
                         first_frame = uint16 (bs ! 6) (bs ! 7),
                         last_frame = uint16 (bs ! 8) (bs ! 9),
                         sample_per_frame = uint16 (bs ! 18) (bs ! 19),
                         frame_rate = float32 (bs ! 20) (bs ! 21) (bs ! 22) (bs ! 23),
                         max_gap = uint16 (bs ! 10) (bs ! 11),
                         scale_factor = float32 (bs ! 12) (bs ! 13) (bs ! 14) (bs ! 15),
                         long_event_labels = uint16 (bs ! 294) (bs ! 295) \<rparr>
               in if magic \<noteq> 80 then (Inl (AssertionError (BadMagic (nat magic))), f1)
                  else (Inr h, f1)))"

section \<open>Looking parameters up and \<open>Manager.check_metadata\<close>\<close>

text \<open>A \<open>str\<close> literal of the source.\<close>

definition lit :: "'s pystr \<Rightarrow> string \<Rightarrow> 's" where
  "lit S s = of_bytes S (map of_char s)"

text \<open>
  \<open>Manager.get('GROUP:PARAM')\<close> for a literal key in upper case with one colon and no
  period: \<open>upper()\<close> leaves the key as it is and \<open>split(':', 1)\<close> gives the two names;
  the result is \<open>None\<close> when the group or the parameter is missing.
\<close>

definition get :: "'s pystr \<Rightarrow> 's manager \<Rightarrow> string \<Rightarrow> string \<Rightarrow> 's param option" where
  "get S m g p =
    (case map_of (groups m) (ByName (lit S g)) of
       None \<Rightarrow> None
     | Some a \<Rightarrow> map_of (params (heap m a)) (lit S p))"

text \<open>\<open>Param._as(fmt)\<close> for the formats \<open>'H'\<close> and \<open>'f'\<close>: the payload must have the
  size of the format.\<close>

definition uint16_value :: "'s param \<Rightarrow> pyerror + int" where
  "uint16_value p = (case p_bytes p of [b0, b1] \<Rightarrow> Inr (uint16 b0 b1) | _ \<Rightarrow> Inl StructError)"

definition float_value :: "'s param \<Rightarrow> pyerror + pyfloat" where
  "float_value p =
    (case p_bytes p of [b0, b1, b2, b3] \<Rightarrow> Inr (float32 b0 b1 b2 b3) | _ \<Rightarrow> Inl StructError)"

text \<open>\<open>Manager.get_uint16\<close> and \<open>get_float\<close>: \<open>None\<close> has no such attribute.\<close>

definition get_uint16 :: "'s pystr \<Rightarrow> 's manager \<Rightarrow> string \<Rightarrow> string \<Rightarrow> pyerror + int" where
  "get_uint16 S m g p = (case get S m g p of None \<Rightarrow> Inl AttributeError | Some q \<Rightarrow> uint16_value q)"

definition get_float :: "'s pystr \<Rightarrow> 's manager \<Rightarrow> string \<Rightarrow> string \<Rightarrow> pyerror + pyfloat" where
  "get_float S m g p = (case get S m g p of None \<Rightarrow> Inl AttributeError | Some q \<Rightarrow> float_value q)"

definition Manager_frame_rate :: "'s pystr \<Rightarrow> 's manager \<Rightarrow> pyerror + pyfloat" where
  "Manager_frame_rate S m = get_float S m ''POINT'' ''RATE''"

definition Manager_scale_factor :: "'s pystr \<Rightarrow> 's manager \<Rightarrow> pyerror + pyfloat" where
  "Manager_scale_factor S m = get_float S m ''POINT'' ''SCALE''"

definition points_per_frame :: "'s pystr \<Rightarrow> 's manager \<Rightarrow> pyerror + int" where
  "points_per_frame S m = get_uint16 S m ''POINT'' ''USED''"

text \<open>\<open>analog_per_frame\<close> and \<open>analog_frame_rate\<close> catch AttributeError and return 0
  (the integer 0, which the product below turns into the float 0).\<close>

definition analog_per_frame :: "'s pystr \<Rightarrow> 's manager \<Rightarrow> pyerror + int" where
  "analog_per_frame S m =
    (case get_uint16 S m ''ANALOG'' ''USED'' of Inl AttributeError \<Rightarrow> Inr 0 | r \<Rightarrow> r)"

definition analog_frame_rate :: "'s pystr \<Rightarrow> 's manager \<Rightarrow> pyerror + pyfloat" where
  "analog_frame_rate S m =
    (case get_float S m ''ANALOG'' ''RATE'' of Inl AttributeError \<Rightarrow> Inr (Fin 0) | r \<Rightarrow> r)"

text \<open>The parameters whose absence is only warned about.\<close>

definition warned :: "(string \<times> string) list" where
  "warned = [(''POINT'', ''LABELS''), (''POINT'', ''DESCRIPTIONS''), (''ANALOG'', ''USED''),
             (''ANALOG'', ''LABELS''), (''ANALOG'', ''DESCRIPTIONS'')]"

text \<open>\<open>Manager.check_metadata\<close>: the exception raised, or the warnings issued.\<close>

definition check_metadata :: "'s pystr \<Rightarrow> 's manager \<Rightarrow> pyerror + (string \<times> string) list" where
  "check_metadata S m =
    (case points_per_frame S m of Inl e \<Rightarrow> Inl e | Inr ppf \<Rightarrow>
     if point_count (header m) \<noteq> ppf
     then Inl (AssertionError (InconsistentPointCount (point_count (header m)) ppf))
     else
    (case Manager_scale_factor S m of Inl e \<Rightarrow> Inl e | Inr sf \<Rightarrow>
     if \<not> float_eq (scale_factor (header m)) sf
     then Inl (AssertionError (InconsistentScaleFactor (scale_factor (header m)) sf))
     else
    (case Manager_frame_rate S m of Inl e \<Rightarrow> Inl e | Inr fr \<Rightarrow>
     if \<not> float_eq (frame_rate (header m)) fr
     then Inl (AssertionError (InconsistentFrameRate (frame_rate (header m)) fr))
     else
    (case analog_per_frame S m of Inl e \<Rightarrow> Inl e | Inr used \<Rightarrow>
    (case analog_frame_rate S m of Inl e \<Rightarrow> Inl e | Inr rate \<Rightarrow>
    (case float_div (int_mul_float used rate) fr of Inl e \<Rightarrow> Inl e | Inr apf \<Rightarrow>
     if \<not> int_eq_float (analog_count (header m)) apf
     then Inl (AssertionError (InconsistentAnalogCount (analog_count (header m)) used rate fr))
     else
    (case get_uint16 S m ''POINT'' ''DATA_START'' of Inl e \<Rightarrow> Inl e | Inr start \<Rightarrow>
     if data_block (header m) \<noteq> start
     then Inl (AssertionError (InconsistentDataBlock (data_block (header m)) start))
     else Inr (filter (\<lambda>(g, p). get S m g p = None) warned))))))))"

section \<open>\<open>Reader.__init__\<close>\<close>

text \<open>
  The constructor: the header, the four bytes before the directory, the directory read
  as one chunk, the loop over its records, and the consistency check. \<open>None\<close> when the
  loop does not end within \<open>fuel\<close> passes; otherwise the exception or the manager, and
  the handle as the constructor leaves it.
\<close>

definition Reader_init ::
    "nat \<Rightarrow> 's pystr \<Rightarrow> handle \<Rightarrow> ((pyerror + 's manager) \<times> handle) option" where
  "Reader_init fuel S f =
    (case Header_read f of
       (Inl e, f1) \<Rightarrow> Some (Inl e, f1)
     | (Inr h, f1) \<Rightarrow>
        (case handle_seek f1 ((parameter_block h - 1) * 512) of
           (Inl e, f2) \<Rightarrow> Some (Inl e, f2)
         | (Inr u, f2) \<Rightarrow>
            (case handle_read f2 4 of
               (buf, f3) \<Rightarrow>
                 if length buf \<noteq> 4 then Some (Inl StructError, f3)
                 else
                   let blocks = uint8 (buf ! 2);
                       processor = uint8 (buf ! 3)
                   in if processor \<noteq> 84 then Some (Inl ValueError, f3)
                      else
                        (case handle_read f3 (512 * blocks - 4) of
                           (bytes, f4) \<Rightarrow>
                             (case read_loop fuel S (Manager h) bytes of
                                None \<Rightarrow> None
                              | Some (Inl e) \<Rightarrow> Some (Inl e, f4)
                              | Some (Inr m) \<Rightarrow>
                                  (case check_metadata S m of
                                     Inl e \<Rightarrow> Some (Inl e, f4)
                                   | Inr w \<Rightarrow> Some (Inr m, f4)))))))"

section \<open>What the proofs about the directory speak of\<close>

text \<open>The bytes of a record after its offset field, where \<open>Param.read\<close> and the
  group branch start reading.\<close>

definition payload_of :: "byte list \<Rightarrow> byte list" where
  "payload_of bytes = drop (4 + nat \<bar>chars_in_name_of bytes\<bar>) bytes"

text \<open>Two group numbers never share a group object.\<close>

definition distinct_ids :: "'s manager \<Rightarrow> bool" where
  "distinct_ids m = (\<forall>g g' a. map_of (groups m) (ById g) = Some a \<and> map_of (groups m) (ById g') = Some a \<longrightarrow> g = g')"

definition directory_inv :: "'s manager \<Rightarrow> bool" where
  "directory_inv m = (allocated m \<and> distinct_ids m)"

text \<open>
  What one record does to the parameter dictionary of the group numbered \<open>G\<close>: a
  parameter record of that group that decodes is stored under its name, as
  \<open>self.params[name.upper()] = Param(...)\<close> does; any other record leaves the
  dictionary as it is.
\<close>

definition attach :: "'s pystr \<Rightarrow> int \<Rightarrow> byte list \<Rightarrow> ('s \<times> 's param) list \<Rightarrow> ('s \<times> 's param) list" where
  "attach S G bytes ps =
    (if group_id_of bytes = G
     then (case name_of S bytes of
             None \<Rightarrow> ps
           | Some n \<Rightarrow>
              (case Param_read S (upper S n) (payload_of bytes) of
                 Inl e \<Rightarrow> ps
               | Inr p \<Rightarrow> AList.update (upper S n) p ps))
     else ps)"

text \<open>The bytes at the start of pass \<open>k\<close>, that is the record read in that pass.\<close>

definition bytes_at :: "nat \<Rightarrow> 's pystr \<Rightarrow> 's manager \<Rightarrow> byte list \<Rightarrow> byte list" where
  "bytes_at k S m chunk = (case pass k S m chunk of Some (mk, bk) \<Rightarrow> bk | None \<Rightarrow> [])"

section \<open>Concrete inputs\<close>

text \<open>A file whose second byte is 81.\<close>

definition bad_file :: handle where
  "bad_file = \<lparr> content = 2 # 81 # replicate 510 0, pos = 7, reads = [] \<rparr>"

text \<open>
  A directory of two records. The first is the parameter \<open>A\<close> of group 1, one byte of
  payload, offset field 6. The second is the parameter \<open>B\<close> of group 1 with the offset
  field \<open>-5\<close> (bytes FB FF).
\<close>

definition backward_chunk :: "byte list" where
  "backward_chunk =
     [0x01, 0x01, 0x41, 0x06, 0x00, 0x01, 0x00, 0x2A, 0x00,
      0x01, 0x01, 0x42, 0xFB, 0xFF, 0x01, 0x00, 0x2B, 0x00]"

text \<open>
  A directory whose group record comes last: the parameters \<open>A\<close> and \<open>B\<close> of group 1,
  then the record of group 1 (group-id byte \<open>-1\<close>, name \<open>P\<close>, description \<open>d\<close>), then
  the end of the directory. \<open>scenario_before\<close> is the manager when the loop reaches the
  group record, \<open>scenario_after\<close> the manager after it.
\<close>

definition scenario_chunk :: "byte list" where
  "scenario_chunk =
     [0x01, 0x01, 0x41, 0x06, 0x00, 0x01, 0x00, 0x2A, 0x00,
      0x01, 0x01, 0x42, 0x06, 0x00, 0x01, 0x00, 0x2B, 0x00,
      0x01, 0xFF, 0x50, 0x04, 0x00, 0x01, 0x64,
      0x00, 0x00]"

definition scenario_before :: "byte list manager" where
  "scenario_before =
     (case pass 2 ascii (Manager Header_default) scenario_chunk of
        Some (m, b) \<Rightarrow> m | None \<Rightarrow> Manager Header_default)"

definition scenario_after :: "byte list manager" where
  "scenario_after =
     (case read_record ascii scenario_before (drop 18 scenario_chunk) of
        Inr (Next m b) \<Rightarrow> m | _ \<Rightarrow> Manager Header_default)"

text \<open>The manager after \<open>add_group(1, 'p', 'd')\<close> on a new \<open>Manager\<close>.\<close>

definition one_group :: "byte list manager" where
  "one_group = snd (add_group ascii (Manager Header_default) 1 [0x70] [0x64])"

text \<open>The manager after \<open>add_group(1, 'A', desc)\<close> on a new \<open>Manager\<close>, with a
  description of 250 characters.\<close>

definition wide_group :: "byte list manager" where
  "wide_group = snd (add_group ascii (Manager Header_default) 1 [0x41] (replicate 250 0x64))"

text \<open>
  A directory with the group POINT (number 1; USED = 2, SCALE = -1.0, RATE = the float
  of the four bytes given, DATA_START = 3) and the group ANALOG (number 2; USED = 4,
  RATE = 120.0), and the manager that the loop of \<open>Reader.__init__\<close> builds from it.
\<close>

definition metadata_chunk :: "byte \<Rightarrow> byte \<Rightarrow> byte \<Rightarrow> byte \<Rightarrow> byte list" where
  "metadata_chunk r0 r1 r2 r3 =
     [0x05, 0xFF, 0x50, 0x4F, 0x49, 0x4E, 0x54, 0x03, 0x00, 0x00,
      0x04, 0x01, 0x55, 0x53, 0x45, 0x44, 0x07, 0x00, 0x02, 0x00, 0x02, 0x00, 0x00,
      0x05, 0x01, 0x53, 0x43, 0x41, 0x4C, 0x45, 0x09, 0x00, 0x04, 0x00, 0x00, 0x00, 0x80, 0xBF, 0x00,
      0x04, 0x01, 0x52, 0x41, 0x54, 0x45, 0x09, 0x00, 0x04, 0x00, r0, r1, r2, r3, 0x00,
      0x0A, 0x01, 0x44, 0x41, 0x54, 0x41, 0x5F, 0x53, 0x54, 0x41, 0x52, 0x54, 0x07, 0x00, 0x02, 0x00, 0x03, 0x00, 0x00,
      0x06, 0xFE, 0x41, 0x4E, 0x41, 0x4C, 0x4F, 0x47, 0x03, 0x00, 0x00,
      0x04, 0x02, 0x55, 0x53, 0x45, 0x44, 0x07, 0x00, 0x02, 0x00, 0x04, 0x00, 0x00,
      0x04, 0x02, 0x52, 0x41, 0x54, 0x45, 0x09, 0x00, 0x04, 0x00, 0x00, 0x00, 0xF0, 0x42, 0x00,
      0x00, 0x00]"

definition metadata_manager :: "header \<Rightarrow> byte \<Rightarrow> byte \<Rightarrow> byte \<Rightarrow> byte \<Rightarrow> byte list manager" where
  "metadata_manager h r0 r1 r2 r3 =
    \<lparr> header = h,
      heap = (\<lambda>a. Group None None)
        (0 := \<lparr> g_name = Some [0x50, 0x4F, 0x49, 0x4E, 0x54], g_desc = Some [],
               params =
                [([0x55, 0x53, 0x45, 0x44],
                  \<lparr> p_name = [0x55, 0x53, 0x45, 0x44], p_desc = [], bytes_per_element = 2,
                    dimensions = [], p_bytes = [0x02, 0x00] \<rparr>),
                 ([0x53, 0x43, 0x41, 0x4C, 0x45],
                  \<lparr> p_name = [0x53, 0x43, 0x41, 0x4C, 0x45], p_desc = [], bytes_per_element = 4,
                    dimensions = [], p_bytes = [0x00, 0x00, 0x80, 0xBF] \<rparr>),
                 ([0x52, 0x41, 0x54, 0x45],
                  \<lparr> p_name = [0x52, 0x41, 0x54, 0x45], p_desc = [], bytes_per_element = 4,
                    dimensions = [], p_bytes = [r0, r1, r2, r3] \<rparr>),
                 ([0x44, 0x41, 0x54, 0x41, 0x5F, 0x53, 0x54, 0x41, 0x52, 0x54],
                  \<lparr> p_name = [0x44, 0x41, 0x54, 0x41, 0x5F, 0x53, 0x54, 0x41, 0x52, 0x54], p_desc = [],
                    bytes_per_element = 2, dimensions = [], p_bytes = [0x03, 0x00] \<rparr>)] \<rparr>,
         Suc 0 := \<lparr> g_name = Some [0x41, 0x4E, 0x41, 0x4C, 0x4F, 0x47], g_desc = Some [],
               params =
                [([0x55, 0x53, 0x45, 0x44],
                  \<lparr> p_name = [0x55, 0x53, 0x45, 0x44], p_desc = [], bytes_per_element = 2,
                    dimensions = [], p_bytes = [0x04, 0x00] \<rparr>),
                 ([0x52, 0x41, 0x54, 0x45],
                  \<lparr> p_name = [0x52, 0x41, 0x54, 0x45], p_desc = [], bytes_per_element = 4,
                    dimensions = [], p_bytes = [0x00, 0x00, 0xF0, 0x42] \<rparr>)] \<rparr>),
      fresh = Suc (Suc 0),
      groups = [(ByName [0x50, 0x4F, 0x49, 0x4E, 0x54], 0), (ById 1, 0),
                (ByName [0x41, 0x4E, 0x41, 0x4C, 0x4F, 0x47], Suc 0), (ById 2, Suc 0)] \<rparr>"

text \<open>Headers for that directory: one that agrees with it when POINT:RATE is 60.0
  (8 analog samples per frame: 4 channels at 120 Hz against 60 Hz), and one with the
  frame rate 0.0 and the analog count 1.\<close>

definition consistent_header :: header where
  "consistent_header = Header_default \<lparr> point_count := 2, analog_count := 8 \<rparr>"

definition zero_rate_header :: header where
  "zero_rate_header = Header_default \<lparr> point_count := 2, analog_count := 1, frame_rate := Fin 0 \<rparr>"

text \<open>A file of two blocks: the header \<open>zero_rate_header\<close>, then the directory above
  with POINT:RATE = 0.0.\<close>

definition zero_rate_file :: handle where
  "zero_rate_file =
    \<lparr> content =
        ([0x02, 0x50, 0x02, 0x00, 0x01, 0x00, 0x01, 0x00, 0x01, 0x00, 0x00, 0x00,
          0x00, 0x00, 0x80, 0xBF, 0x03, 0x00, 0x00, 0x00, 0x00, 0x00, 0x00, 0x00] @ replicate 488 0)
        @ ([0x00, 0x00, 0x01, 0x54] @ metadata_chunk 0 0 0 0 @ replicate 394 0),
      pos = 0, reads = [] \<rparr>"

section \<open>Properties of the point decoder\<close>

lemma bit_pick: "drop_bit k ((i::int) AND push_bit k 1) = of_bool (bit i k)"
  by (rule bit_eqI) (auto simp add: bit_simps)

lemma sum_list_of_bool: "(\<Sum>k\<leftarrow>xs. (of_bool (P k) :: int)) = int (length (filter P xs))"
  by (induction xs) auto

lemma camera_bits_card:
  "camera_bits c = int (card {k. 8 \<le> k \<and> k \<le> 16 \<and> bit c k})"
proof -
  have "camera_bits c = int (length (filter (\<lambda>k. bit (uint c) k) [8..<17]))"
    unfolding camera_bits_def bit_pick by (rule sum_list_of_bool)
  also have "length (filter (\<lambda>k. bit (uint c) k) [8..<17])
      = card (set (filter (\<lambda>k. bit (uint c) k) [8..<17]))"
    by (rule distinct_card [symmetric]) simp
  also have "set (filter (\<lambda>k. bit (uint c) k) [8..<17]) = {k. 8 \<le> k \<and> k \<le> 16 \<and> bit c k}"
    unfolding set_filter set_upt by (auto simp add: bit_uint_iff dest: bit_imp_le_length)
  finally show ?thesis .
qed

lemma camera_bits_le: "camera_bits c \<le> 8"
proof -
  have "{k. 8 \<le> k \<and> k \<le> 16 \<and> bit c k} \<subseteq> {8..<16}"
    by (auto dest: bit_imp_le_length)
  then have "card {k. 8 \<le> k \<and> k \<le> 16 \<and> bit c k} \<le> card {8..<16::nat}"
    by (intro card_mono) auto
  then show ?thesis by (simp add: camera_bits_card)
qed

lemma low_byte: "uint ((c::16 word) AND 0xff) = uint c mod 256"
proof -
  have "uint c AND 255 = take_bit 8 (uint c)"
    by (simp add: take_bit_eq_mask mask_eq_exp_minus_1)
  then show ?thesis by (simp add: uint_and take_bit_eq_mod)
qed

lemma trunc_in_range:
  "(0 \<le> trunc r \<and> trunc r < 65536) = (- 1 < r \<and> r < 65536)"
proof (cases "0 \<le> r")
  case True
  then have "trunc r = \<lfloor>r\<rfloor>" by (simp add: trunc_def)
  moreover have "(\<lfloor>r\<rfloor> < 65536) = (r < 65536)" by (simp add: floor_less_iff)
  moreover have "0 \<le> \<lfloor>r\<rfloor>" using True by simp
  ultimately show ?thesis using True by simp
next
  case False
  then have t: "trunc r = \<lceil>r\<rceil>" by (simp add: trunc_def)
  have "(0 \<le> \<lceil>r\<rceil>) = (- 1 < r)" by (simp add: le_ceiling_iff)
  moreover have "\<lceil>r\<rceil> < 65536" using False by (simp add: ceiling_less_iff)
  ultimately show ?thesis using False t by simp
qed

lemma trunc_max: "- 1 < r \<Longrightarrow> trunc r = max 0 \<lfloor>r\<rfloor>"
proof (cases "0 \<le> r")
  case True
  then show ?thesis by (simp add: trunc_def)
next
  case False
  assume "- 1 < r"
  with False have "\<lceil>r\<rceil> = 0" "\<lfloor>r\<rfloor> = - 1" by (simp_all add: ceiling_eq_iff floor_eq_iff)
  with False show ?thesis by (simp add: trunc_def)
qed

lemma int16_not_negative: "(- 1 < sint (w :: 16 word)) = (uint w < 32768)"
proof -
  have s: "sint w = (uint w + 32768) mod 65536 - 32768"
    by (simp add: sint_uint signed_take_bit_eq_take_bit_shift take_bit_eq_mod)
  have b: "0 \<le> uint w \<and> uint w < 65536" using uint_bounded [of w] by simp
  show ?thesis
  proof (cases "uint w < 32768")
    case True
    with b have m: "(uint w + 32768) mod 65536 = uint w + 32768" by (simp add: mod_pos_pos_trivial)
    from b have "- 1 < uint w" by linarith
    with True show ?thesis by (simp add: s m)
  next
    case False
    have e: "uint w + 32768 = (uint w - 32768) + 65536" by linarith
    have "(uint w + 32768) mod 65536 = (uint w - 32768) mod 65536"
      by (simp only: e mod_add_self2)
    also have "\<dots> = uint w - 32768" using False b by (simp add: mod_pos_pos_trivial)
    finally have m: "(uint w + 32768) mod 65536 = uint w - 32768" .
    from b have "\<not> 65535 < uint w" by linarith
    with False show ?thesis by (simp add: s m)
  qed
qed

lemma read_point_columns:
  "residual (read_point beyond sf (r0, r1, r2, r3)) =
     (if greater_minus1 r3 then real_of_int (uint (astype_uint16 beyond r3) mod 256) * \<bar>sf\<bar>
      else - 1)"
  "cameras (read_point beyond sf (r0, r1, r2, r3)) =
     (if greater_minus1 r3
      then real (card {k. 8 \<le> k \<and> k \<le> 16 \<and> bit (astype_uint16 beyond r3) k})
      else - 1)"
  by (simp_all add: read_point_def residual_def cameras_def Let_def camera_bits_card low_byte)

lemma float_cast_in_range:
  "uint (astype_uint16 beyond (F32 (Fin r))) =
     (if - 1 < r \<and> r < 65536 then max 0 \<lfloor>r\<rfloor> else uint (beyond (Fin r)))"
proof (cases "- 1 < r \<and> r < 65536")
  case True
  then have t: "0 \<le> trunc r \<and> trunc r < 65536" using trunc_in_range [of r] by blast
  then have "uint (word_of_int (trunc r) :: 16 word) = trunc r"
    by (simp add: uint_word_of_int take_bit_eq_mod)
  with True t show ?thesis by (simp add: trunc_max)
next
  case False
  then have "\<not> (0 \<le> trunc r \<and> trunc r < 65536)" using trunc_in_range [of r] by blast
  with False show ?thesis by auto
qed

text \<open>
  C2, as the code has it. The decoder tests the fourth raw value as it is stored,
  \<open>raw[:, 3] > -1\<close>. When the stored value is not greater than \<open>-1\<close> (a 16-bit integer
  that is negative, that is whose unsigned reading is 32768 or more, 65535 included; a
  float that is \<open>-1\<close> or less, minus infinity or a NaN) residual error and camera
  count are both \<open>-1\<close>. For every other value, with \<open>c\<close> its conversion to an unsigned
  16-bit integer, the residual error is \<open>(c & 0xFF) * |scale_factor|\<close> and the camera
  count is the number of set bits of \<open>c\<close> among the positions 8 to 16. There \<open>c\<close> is
  the stored integer itself, or the float rounded towards zero when the float is below
  65536, or what the platform's cast yields for a larger float and for plus infinity.
\<close>

theorem read_point_fourth_value:
  "residual (read_point beyond sf (r0, r1, r2, r3)) =
     (if greater_minus1 r3 then real_of_int (uint (astype_uint16 beyond r3) mod 256) * \<bar>sf\<bar>
      else - 1)
   \<and> cameras (read_point beyond sf (r0, r1, r2, r3)) =
     (if greater_minus1 r3
      then real (card {k. 8 \<le> k \<and> k \<le> 16 \<and> bit (astype_uint16 beyond r3) k})
      else - 1)
   \<and> greater_minus1 (I16 w) = (uint w < 32768)
   \<and> uint (astype_uint16 beyond (I16 w)) = uint w
   \<and> greater_minus1 (F32 (Fin r)) = (- 1 < r)
   \<and> uint (astype_uint16 beyond (F32 (Fin r))) =
       (if - 1 < r \<and> r < 65536 then max 0 \<lfloor>r\<rfloor> else uint (beyond (Fin r)))
   \<and> greater_minus1 (F32 (Inf negative)) = (\<not> negative)
   \<and> astype_uint16 beyond (F32 (Inf negative)) = beyond (Inf negative)
   \<and> greater_minus1 (F32 NaN) = False"
  by (simp only: read_point_columns float_cast_in_range int16_not_negative
      greater_minus1.simps astype_uint16.simps(1,3) simp_thms)

text \<open>
  C2 as the specification states it fails: the stored 16-bit integer \<open>-2\<close> reads
  65534 as an unsigned integer, which is not 65535, and the decoder still marks the
  point invalid (residual error \<open>-1\<close>) instead of computing \<open>(65534 & 0xFF) * 2 = 508\<close>.
  (An integer is converted the same way on every platform; the cast of floats beyond
  the range is taken to give 0 here.)
\<close>

theorem read_point_sentinel_counterexample:
  "astype_uint16 (\<lambda>f. 0) (I16 0xFFFE) \<noteq> 65535 \<and>
   residual (read_point (\<lambda>f. 0) 2 (I16 10, I16 20, I16 30, I16 0xFFFE))
     \<noteq> real_of_int (uint (astype_uint16 (\<lambda>f. 0) (I16 0xFFFE) AND 0xff)) * \<bar>2\<bar>"
  by (simp add: read_point_def residual_def)

text \<open>A float beyond the range of the conversion, on a platform whose cast gives 0
  there: no camera bit is set.\<close>

lemma read_point_beyond_range:
  "cameras (read_point (\<lambda>f. 0) (- 1)
      (F32 (Fin 1), F32 (Fin 2), F32 (Fin 3), F32 (Fin 10000000000))) = 0"
  by (simp add: read_point_def cameras_def camera_bits_def trunc_def upt_rec)

text \<open>
  C10: the camera count of a decoded point never exceeds 8. The count is taken on a
  16-bit value, so of the nine positions 8 to 16 the last is never set. (An invalid
  point has the count \<open>-1\<close>.)
\<close>

theorem cameras_at_most_8: "cameras (read_point beyond sf (r0, r1, r2, r3)) \<le> 8"
  using camera_bits_le [of "astype_uint16 beyond r3"]
  by (simp add: read_point_def cameras_def Let_def)

section \<open>Properties of the frame encoder\<close>

lemma write_frame_ignores_analog:
  "write_frame sf psf raw (points, analog) = write_frame sf psf raw (points, [])"
  by (simp add: write_frame_def)

text \<open>
  C4 (the code does otherwise): a frame with one point and the analog sample 7, written
  in float storage. The four numbers of the point record are all that is written; the
  analog sample is not.
\<close>

theorem write_frame_analog_not_written:
  "write_frame (- 1) (- 1) [(0, 0, 0, 0)] ([(1, 2, 3, 1 / 2, 3)], [[7]])
     = Inr ([(- 1, - 2, - 3, 0)], [- 1, - 2, - 3, 0])"
  by (simp add: write_frame_def write_row_def flatten_def float_astype_uint8_def
      float_astype_uint16_def trunc_def)

text \<open>
  C1 (the code does otherwise): the default writer (point scale factor \<open>-1\<close>, float
  storage), one frame with the valid point (1, 2, 3) of residual error 0.5 seen by 3
  cameras. The encoder divides the coordinates by the signed scale factor, the decoder
  multiplies them by 1: the point comes back as (-1, -2, -3).
\<close>

theorem round_trip_negates_coordinates:
  "write_frames (- 1) (- 1) [(0, 0, 0, 0)] [([(1, 2, 3, 1 / 2, 3)], [])] = Inr [- 1, - 2, - 3, 0]
   \<and> read_points_float beyond (- 1) [- 1, - 2, - 3, 0]
       = [(Fin (- 1), Fin (- 2), Fin (- 3), 0, 0)]"
  by (simp add: write_frame_def write_row_def flatten_def float_astype_uint8_def
      float_astype_uint16_def trunc_def read_point_def camera_bits_def upt_rec)

section \<open>Properties of \<open>Header.read\<close>\<close>

lemma Header_read_bad_magic:
  assumes "512 \<le> length (content f)" and "content f ! 1 \<noteq> 80"
  shows "Header_read f =
    (Inl (AssertionError (BadMagic (unat (content f ! 1)))),
     f \<lparr> pos := 512, reads := reads f @ [(0, 512)] \<rparr>)"
proof -
  have m: "uint8 (content f ! 1) \<noteq> 80"
    using assms(2) by (simp add: uint8_def word_uint_eq_iff)
  show ?thesis
    using assms(1) m
    by (simp add: Header_read_def handle_seek_def handle_read_def Let_def uint8_def)
qed

text \<open>
  C6: on a file of at least 512 bytes whose byte at offset 1 is not 80, \<open>Header.read\<close>
  raises the AssertionError of its \<open>assert\<close> (the specification's FormatError), and so
  does the constructor of \<open>Reader\<close>, whatever the rest of the file holds; the handle
  has then served one read, of 512 bytes from position 0, and nothing more.
\<close>

theorem bad_magic_fails_after_one_read:
  assumes "512 \<le> length (content f)" and "content f ! 1 \<noteq> 80"
  shows "Header_read f =
      (Inl (AssertionError (BadMagic (unat (content f ! 1)))),
       f \<lparr> pos := 512, reads := reads f @ [(0, 512)] \<rparr>)
    \<and> Reader_init fuel S f =
      Some (Inl (AssertionError (BadMagic (unat (content f ! 1)))),
            f \<lparr> pos := 512, reads := reads f @ [(0, 512)] \<rparr>)"
  using Header_read_bad_magic [OF assms] by (simp add: Reader_init_def)

theorem bad_magic_fails_after_one_read_witness:
  "512 \<le> length (content bad_file) \<and> content bad_file ! 1 \<noteq> 80
   \<and> Reader_init 0 ascii bad_file =
      Some (Inl (AssertionError (BadMagic (unat (content bad_file ! 1)))),
            bad_file \<lparr> pos := 512, reads := reads bad_file @ [(0, 512)] \<rparr>)"
proof -
  have h1: "512 \<le> length (content bad_file)" by (simp add: bad_file_def)
  have h2: "content bad_file ! 1 \<noteq> 80" by (simp add: bad_file_def)
  from bad_magic_fails_after_one_read [OF h1 h2, of 0 ascii] h1 h2 show ?thesis by blast
qed

section \<open>Properties of \<open>Manager.add_group\<close>\<close>

lemma allocated_iff: "allocated m \<longleftrightarrow> (\<forall>a \<in> snd ` set (groups m). a < fresh m)"
  by (auto simp add: allocated_def list_all_iff)

lemma allocated_map_of: "allocated m \<Longrightarrow> map_of (groups m) k = Some a \<Longrightarrow> a < fresh m"
  by (force simp add: allocated_iff dest: map_of_SomeD)


text \<open>
  C9: \<open>add_group(group_id, name, desc)\<close> raises KeyError when the dictionary has the key
  \<open>group_id\<close> or the key \<open>name.upper()\<close>, and the manager is then as it was.
  Otherwise it returns one new group object, which no key reached before, with the
  upper-cased name and the description; the dictionary gains exactly the two keys
  \<open>group_id\<close> and \<open>name.upper()\<close>, both for that object, and every other group object
  is as it was.
\<close>

theorem add_group_raises_or_inserts:
  assumes "allocated m"
  shows "(map_of (groups m) (ById gid) \<noteq> None \<or> map_of (groups m) (ByName (upper S name)) \<noteq> None
      \<longrightarrow> add_group S m gid name desc = (Inl KeyError, m))
   \<and> (map_of (groups m) (ById gid) = None \<and> map_of (groups m) (ByName (upper S name)) = None
      \<longrightarrow> (\<exists>a m'. add_group S m gid name desc = (Inr a, m')
            \<and> a \<notin> snd ` set (groups m)
            \<and> heap m' a = Group (Some (upper S name)) (Some desc)
            \<and> (\<forall>b. b \<noteq> a \<longrightarrow> heap m' b = heap m b)
            \<and> map_of (groups m') = (map_of (groups m)) (ByName (upper S name) \<mapsto> a, ById gid \<mapsto> a)
            \<and> header m' = header m))"
proof -
  have new: "fresh m \<notin> snd ` set (groups m)"
    using assms by (auto simp add: allocated_iff)
  show ?thesis
    using new by (auto simp add: add_group_def Let_def update_conv')
qed

lemma one_group_eq:
  "one_group = \<lparr> header = Header_default,
       heap = (\<lambda>a. Group None None) (0 := Group (Some [0x50]) (Some [0x64])),
       fresh = Suc 0, groups = [(ByName [0x50], 0), (ById 1, 0)] \<rparr>"
  by (simp add: one_group_def add_group_def Manager_def ascii_def ascii_upper_def Let_def)

theorem add_group_raises_or_inserts_witness:
  "allocated one_group \<and> map_of (groups one_group) (ById 1) \<noteq> None
   \<and> add_group ascii one_group 1 [0x71] [0x65] = (Inl KeyError, one_group)
   \<and> allocated (Manager Header_default :: byte list manager)
   \<and> map_of (groups (Manager Header_default :: byte list manager)) (ById 1) = None
   \<and> map_of (groups (Manager Header_default :: byte list manager)) (ByName (upper ascii [0x70])) = None
   \<and> (\<exists>a m'. add_group ascii (Manager Header_default) 1 [0x70] [0x64] = (Inr a, m')
         \<and> map_of (groups m') (ById 1) = Some a
         \<and> map_of (groups m') (ByName (upper ascii [0x70])) = Some a)"
proof -
  have a1: "allocated one_group" by (simp add: one_group_eq allocated_def)
  have k1: "map_of (groups one_group) (ById 1) \<noteq> None" by (simp add: one_group_eq)
  have r1: "add_group ascii one_group 1 [0x71] [0x65] = (Inl KeyError, one_group)"
    using add_group_raises_or_inserts [OF a1, of 1 ascii "[0x71]" "[0x65]"] k1 by blast
  have a0: "allocated (Manager Header_default :: byte list manager)"
    by (simp add: Manager_def allocated_def)
  have k0: "map_of (groups (Manager Header_default :: byte list manager)) (ById 1) = None"
    "map_of (groups (Manager Header_default :: byte list manager)) (ByName (upper ascii [0x70])) = None"
    by (simp_all add: Manager_def)
  have r0: "\<exists>a m'. add_group ascii (Manager Header_default) 1 [0x70] [0x64] = (Inr a, m')
         \<and> map_of (groups m') (ById 1) = Some a
         \<and> map_of (groups m') (ByName (upper ascii [0x70])) = Some a"
    using add_group_raises_or_inserts [OF a0, of 1 ascii "[0x70]" "[0x64]"] k0 by fastforce
  from a1 k1 r1 a0 k0 r0 show ?thesis by blast
qed

section \<open>Properties of the directory decoder\<close>

lemma read_record_Next:
  assumes "read_record S m bytes = Inr (Next m' bytes')"
  shows "bytes' = slice_from (2 + \<bar>chars_in_name_of bytes\<bar> + offset_to_next_of bytes) bytes"
  using assms
  by (auto simp add: read_record_def chars_in_name_of_def offset_to_next_of_def Let_def
      split: list.splits option.splits sum.splits if_splits)

text \<open>
  C3, as the code has it. The record that starts at position \<open>p\<close> of the chunk has the
  name-length byte \<open>L\<close> and the offset field \<open>next_offset\<close>. When the pass on it raises
  nothing and \<open>2 + |L| + next_offset\<close> is not negative, the next pass starts at position
  \<open>p + 2 + |L| + next_offset\<close> of the chunk, whatever the record's payload was (the
  loop ends when that is at or past the end of the chunk).
\<close>

theorem read_record_next_position:
  assumes "read_record S m (drop p chunk) = Inr (Next m' bytes')"
      and "0 \<le> 2 + \<bar>chars_in_name_of (drop p chunk)\<bar> + offset_to_next_of (drop p chunk)"
  shows "bytes' = drop (p + nat (2 + \<bar>chars_in_name_of (drop p chunk)\<bar>
                                  + offset_to_next_of (drop p chunk))) chunk"
  using read_record_Next [OF assms(1)] assms(2)
  by (simp add: slice_from_def add.commute)

lemma drop_payload:
  assumes "drop n buf = x # y # rest"
  shows "drop (4 + n) (b0 # b1 # buf) = rest"
proof -
  have "4 + n = Suc (Suc (2 + n))" by simp
  then have "drop (4 + n) (b0 # b1 # buf) = drop (2 + n) buf" by (simp only: drop_Suc_Cons)
  also have "\<dots> = drop 2 (drop n buf)" by (simp add: add.commute)
  also have "\<dots> = rest" using assms by simp
  finally show ?thesis .
qed

lemma read_record_cases:
  assumes "read_record S m bytes = Inr (Next m' bytes')"
  shows "\<exists>n. name_of S bytes = Some n \<and> group_id_of bytes \<noteq> 0 \<and>
     (if 0 < group_id_of bytes
      then read_parameter S m (group_id_of bytes) n (payload_of bytes) = Inr m'
      else read_group S m \<bar>group_id_of bytes\<bar> n (payload_of bytes) = Inr m')"
  using assms
  by (auto simp add: read_record_def chars_in_name_of_def group_id_of_def name_of_def
      payload_of_def Let_def drop_payload
      split: list.splits option.splits sum.splits if_splits)

lemma Group_sel [simp]: "g_name (Group a b) = a" "g_desc (Group a b) = b" "params (Group a b) = []"
  by (simp_all add: Group_def)

lemma read_parameter_new:
  assumes "read_parameter S m G n buf = Inr m'" and "map_of (groups m) (ById G) = None"
  shows "\<exists>p. Param_read S (upper S n) buf = Inr p
    \<and> m' = m \<lparr> heap := (heap m) (fresh m := \<lparr> g_name = None, g_desc = None, params = [(upper S n, p)] \<rparr>),
               fresh := Suc (fresh m),
               groups := AList.update (ById G) (fresh m) (groups m) \<rparr>"
  using assms
  by (auto simp add: read_parameter_def setdefault_group_def add_param_def Let_def Group_def
      split: sum.splits)

lemma read_parameter_old:
  assumes "read_parameter S m G n buf = Inr m'" and "map_of (groups m) (ById G) = Some a"
  shows "\<exists>p. Param_read S (upper S n) buf = Inr p
    \<and> m' = m \<lparr> heap := (heap m) (a := (heap m a) \<lparr> params := AList.update (upper S n) p (params (heap m a)) \<rparr>) \<rparr>"
  using assms
  by (auto simp add: read_parameter_def setdefault_group_def add_param_def Let_def
      split: sum.splits)

lemma read_group_new:
  assumes "read_group S m G n buf = Inr m'" and "map_of (groups m) (ById G) = None"
  shows "\<exists>d. map_of (groups m) (ByName (upper S n)) = None
    \<and> m' = m \<lparr> heap := (heap m) (fresh m := Group (Some (upper S n)) (Some d)),
               fresh := Suc (fresh m),
               groups := AList.update (ById G) (fresh m)
                           (AList.update (ByName (upper S n)) (fresh m) (groups m)) \<rparr>"
  using assms
  by (auto simp add: read_group_def add_group_def Let_def split: list.splits sum.splits if_splits)

lemma read_group_old:
  assumes "read_group S m G n buf = Inr m'" and "map_of (groups m) (ById G) = Some a"
  shows "\<exists>sz rest. buf = sz # rest
    \<and> m' = m \<lparr> heap := (heap m) (a := (heap m a) \<lparr> g_name := Some n,
                        g_desc := Some (of_bytes S (take (nat (uint8 sz)) rest)) \<rparr>),
               groups := AList.update (ByName n) a (groups m) \<rparr>"
  using assms
  by (auto simp add: read_group_def Let_def split: list.splits sum.splits if_splits)

lemma snd_set_update: "snd ` set (AList.update k v al) \<subseteq> insert v (snd ` set al)"
  by (induct al) auto

lemma allocated_update1:
  assumes "allocated m"
  shows "allocated (m \<lparr> heap := hp, fresh := Suc (fresh m), groups := AList.update k (fresh m) (groups m) \<rparr>)"
  using assms snd_set_update [of k "fresh m" "groups m"]
  by (fastforce simp add: allocated_iff)

lemma allocated_update2:
  assumes "allocated m"
  shows "allocated (m \<lparr> heap := hp, fresh := Suc (fresh m),
            groups := AList.update k (fresh m) (AList.update k' (fresh m) (groups m)) \<rparr>)"
proof -
  have "snd ` set (AList.update k (fresh m) (AList.update k' (fresh m) (groups m)))
      \<subseteq> insert (fresh m) (snd ` set (groups m))"
    using snd_set_update [of k "fresh m" "AList.update k' (fresh m) (groups m)"]
      snd_set_update [of k' "fresh m" "groups m"] by blast
  then show ?thesis using assms by (fastforce simp add: allocated_iff)
qed

lemma allocated_update3:
  assumes "allocated m" and "a < fresh m"
  shows "allocated (m \<lparr> heap := hp, groups := AList.update k a (groups m) \<rparr>)"
  using assms snd_set_update [of k a "groups m"]
  by (fastforce simp add: allocated_iff)

lemma allocated_heap [simp]: "allocated (m \<lparr> heap := hp \<rparr>) = allocated m"
  by (simp add: allocated_def)

lemma read_parameter_inv:
  assumes "read_parameter S m G n buf = Inr m'" and "directory_inv m"
  shows "directory_inv m'"
proof (cases "map_of (groups m) (ById G)")
  case None
  from read_parameter_new [OF assms(1) None] obtain p where
    m': "m' = m \<lparr> heap := (heap m) (fresh m := \<lparr> g_name = None, g_desc = None, params = [(upper S n, p)] \<rparr>),
               fresh := Suc (fresh m),
               groups := AList.update (ById G) (fresh m) (groups m) \<rparr>" by blast
  have al: "allocated m'" unfolding m' using assms(2) by (simp add: directory_inv_def allocated_update1)
  have "distinct_ids m'"
    using assms(2) None unfolding m' directory_inv_def distinct_ids_def
    by (auto simp add: update_conv' dest: allocated_map_of split: if_splits)
  with al show ?thesis by (simp add: directory_inv_def)
next
  case (Some a)
  from read_parameter_old [OF assms(1) Some] show ?thesis
    using assms(2) by (auto simp add: directory_inv_def distinct_ids_def)
qed

lemma read_group_inv:
  assumes "read_group S m G n buf = Inr m'" and "directory_inv m"
  shows "directory_inv m'"
proof (cases "map_of (groups m) (ById G)")
  case None
  from read_group_new [OF assms(1) None] obtain d where
    m': "m' = m \<lparr> heap := (heap m) (fresh m := Group (Some (upper S n)) (Some d)),
               fresh := Suc (fresh m),
               groups := AList.update (ById G) (fresh m)
                           (AList.update (ByName (upper S n)) (fresh m) (groups m)) \<rparr>" by blast
  have al: "allocated m'" unfolding m' using assms(2) by (simp add: directory_inv_def allocated_update2)
  have "distinct_ids m'"
    using assms(2) None unfolding m' directory_inv_def distinct_ids_def
    by (auto simp add: update_conv' dest: allocated_map_of split: if_splits)
  with al show ?thesis by (simp add: directory_inv_def)
next
  case (Some a)
  from read_group_old [OF assms(1) Some] obtain sz rest where
    m': "m' = m \<lparr> heap := (heap m) (a := (heap m a) \<lparr> g_name := Some n,
                        g_desc := Some (of_bytes S (take (nat (uint8 sz)) rest)) \<rparr>),
               groups := AList.update (ByName n) a (groups m) \<rparr>" by blast
  have "a < fresh m" using assms(2) Some by (auto simp add: directory_inv_def dest: allocated_map_of)
  then have al: "allocated m'" unfolding m' using assms(2) by (simp add: directory_inv_def allocated_update3)
  have "distinct_ids m'"
    using assms(2) unfolding m' directory_inv_def distinct_ids_def
    by (auto simp add: update_conv' split: if_splits)
  with al show ?thesis by (simp add: directory_inv_def)
qed

lemma read_record_inv:
  assumes "read_record S m bytes = Inr (Next m' bytes')" and "directory_inv m"
  shows "directory_inv m'"
  using read_record_cases [OF assms(1)] assms(2)
  by (auto dest: read_parameter_inv read_group_inv split: if_splits)

lemma read_record_group_id:
  assumes "read_record S m bytes = Inr (Next m' bytes')" and "map_of (groups m) (ById G) = Some a"
  shows "map_of (groups m') (ById G) = Some a"
proof -
  from read_record_cases [OF assms(1)] obtain n where
    c: "if 0 < group_id_of bytes
        then read_parameter S m (group_id_of bytes) n (payload_of bytes) = Inr m'
        else read_group S m \<bar>group_id_of bytes\<bar> n (payload_of bytes) = Inr m'" by blast
  show ?thesis
  proof (cases "0 < group_id_of bytes")
    case True
    then have r: "read_parameter S m (group_id_of bytes) n (payload_of bytes) = Inr m'" using c by simp
    show ?thesis
    proof (cases "map_of (groups m) (ById (group_id_of bytes))")
      case None
      from read_parameter_new [OF r None] assms(2) None show ?thesis
        by (auto simp add: update_conv')
    next
      case (Some b)
      from read_parameter_old [OF r Some] assms(2) show ?thesis by auto
    qed
  next
    case False
    then have r: "read_group S m \<bar>group_id_of bytes\<bar> n (payload_of bytes) = Inr m'" using c by simp
    show ?thesis
    proof (cases "map_of (groups m) (ById \<bar>group_id_of bytes\<bar>)")
      case None
      from read_group_new [OF r None] assms(2) None show ?thesis
        by (auto simp add: update_conv')
    next
      case (Some b)
      from read_group_old [OF r Some] assms(2) show ?thesis by (auto simp add: update_conv')
    qed
  qed
qed

lemma read_record_params:
  assumes "read_record S m bytes = Inr (Next m' bytes')" and "directory_inv m"
    and "map_of (groups m) (ById G) = Some a" and "0 < G"
  shows "params (heap m' a) = attach S G bytes (params (heap m a))"
proof -
  have a: "a < fresh m" using assms(2,3) by (auto simp add: directory_inv_def dest: allocated_map_of)
  from read_record_cases [OF assms(1)] obtain n where
    n: "name_of S bytes = Some n" and
    c: "if 0 < group_id_of bytes
        then read_parameter S m (group_id_of bytes) n (payload_of bytes) = Inr m'
        else read_group S m \<bar>group_id_of bytes\<bar> n (payload_of bytes) = Inr m'" by blast
  show ?thesis
  proof (cases "0 < group_id_of bytes")
    case True
    then have r: "read_parameter S m (group_id_of bytes) n (payload_of bytes) = Inr m'" using c by simp
    show ?thesis
    proof (cases "group_id_of bytes = G")
      case True
      from read_parameter_old [OF r] assms(3) True obtain p where
        "Param_read S (upper S n) (payload_of bytes) = Inr p"
        "m' = m \<lparr> heap := (heap m) (a := (heap m a) \<lparr> params := AList.update (upper S n) p (params (heap m a)) \<rparr>) \<rparr>"
        by auto
      then show ?thesis using True n by (simp add: attach_def)
    next
      case False
      show ?thesis
      proof (cases "map_of (groups m) (ById (group_id_of bytes))")
        case None
        from read_parameter_new [OF r None] a False show ?thesis by (auto simp add: attach_def)
      next
        case (Some b)
        have "b \<noteq> a" using Some assms(2,3) False by (auto simp add: directory_inv_def distinct_ids_def)
        with read_parameter_old [OF r Some] False show ?thesis by (auto simp add: attach_def)
      qed
    qed
  next
    case False
    then have r: "read_group S m \<bar>group_id_of bytes\<bar> n (payload_of bytes) = Inr m'" using c by simp
    have ng: "group_id_of bytes \<noteq> G" using False assms(4) by auto
    show ?thesis
    proof (cases "map_of (groups m) (ById \<bar>group_id_of bytes\<bar>)")
      case None
      from read_group_new [OF r None] a ng show ?thesis by (auto simp add: attach_def)
    next
      case (Some b)
      from read_group_old [OF r Some] ng show ?thesis by (auto simp add: attach_def)
    qed
  qed
qed

lemma pass_Suc:
  "pass (Suc k) S m c =
    (case pass k S m c of
       None \<Rightarrow> None
     | Some (mk, bk) \<Rightarrow>
        (case read_record S mk bk of
           Inr (Next m' b') \<Rightarrow> if b' = [] then None else Some (m', b')
         | _ \<Rightarrow> None))"
proof (induction k arbitrary: m c)
  case 0
  show ?case by (simp split: sum.splits step.splits)
next
  case (Suc k)
  show ?case
  proof (cases "c = []")
    case True
    then show ?thesis by simp
  next
    case False
    show ?thesis
    proof (cases "read_record S m c")
      case (Inl e)
      with False show ?thesis by simp
    next
      case (Inr st)
      show ?thesis
      proof (cases st)
        case Break
        with Inr False show ?thesis by simp
      next
        case (Next m1 c1)
        have "pass (Suc (Suc k)) S m c = pass (Suc k) S m1 c1"
          using False Inr Next by simp
        also note Suc.IH [of m1 c1]
        also have "pass k S m1 c1 = pass (Suc k) S m c"
          using False Inr Next by simp
        finally show ?thesis .
      qed
    qed
  qed
qed

lemma pass_SucD:
  assumes "pass (Suc k) S m c = Some (m', b')"
  shows "\<exists>mk bk. pass k S m c = Some (mk, bk) \<and> read_record S mk bk = Inr (Next m' b')"
  using assms unfolding pass_Suc [of k S m c]
  by (auto split: option.splits sum.splits step.splits if_splits)

lemma pass_earlier:
  assumes "pass j S m c = Some x" and "k \<le> j"
  shows "\<exists>y. pass k S m c = Some y"
  using assms
proof (induction j arbitrary: x)
  case 0
  then show ?case by simp
next
  case (Suc j)
  show ?case
  proof (cases "k = Suc j")
    case True
    with Suc.prems show ?thesis by simp
  next
    case False
    obtain mj bj where "pass j S m c = Some (mj, bj)"
      using pass_SucD [of j S m c "fst x" "snd x"] Suc.prems(1) by auto
    with Suc.IH [of "(mj, bj)"] False Suc.prems(2) show ?thesis by simp
  qed
qed

lemma pass_inv:
  assumes "directory_inv m" and "pass k S m c = Some (mk, bk)"
  shows "directory_inv mk"
  using assms(2)
proof (induction k arbitrary: mk bk)
  case 0
  with assms(1) show ?case by (simp split: if_splits)
next
  case (Suc k)
  from pass_SucD [OF Suc.prems] obtain m1 b1 where
    "pass k S m c = Some (m1, b1)" "read_record S m1 b1 = Inr (Next mk bk)" by blast
  with Suc.IH show ?case by (blast intro: read_record_inv)
qed

lemma Manager_inv: "directory_inv (Manager h)"
  by (simp add: directory_inv_def allocated_def distinct_ids_def Manager_def)

lemma group_kept:
  assumes "directory_inv m0" and "0 < G"
    and "pass (Suc i) S m0 c = Some (m2, b2)" and "map_of (groups m2) (ById G) = Some a"
    and "Suc i \<le> j" and "pass j S m0 c = Some (mj, bj)"
  shows "map_of (groups mj) (ById G) = Some a
    \<and> params (heap mj a) =
        foldl (\<lambda>ps bs. attach S G bs ps) (params (heap m2 a))
          (map (\<lambda>k. bytes_at k S m0 c) [Suc i..<j])"
  using assms(5,6)
proof (induction j arbitrary: mj bj)
  case 0
  then show ?case by simp
next
  case (Suc j)
  show ?case
  proof (cases "Suc i = Suc j")
    case True
    with Suc.prems assms(3,4) show ?thesis by simp
  next
    case False
    then have le: "Suc i \<le> j" using Suc.prems(1) by simp
    from pass_SucD [OF Suc.prems(2)] obtain m1 b1 where
      p: "pass j S m0 c = Some (m1, b1)" and r: "read_record S m1 b1 = Inr (Next mj bj)" by blast
    from Suc.IH [OF le p] have
      g: "map_of (groups m1) (ById G) = Some a" and
      ps: "params (heap m1 a) =
        foldl (\<lambda>ps bs. attach S G bs ps) (params (heap m2 a))
          (map (\<lambda>k. bytes_at k S m0 c) [Suc i..<j])" by simp_all
    have iv: "directory_inv m1" using pass_inv [OF assms(1) p] .
    have b: "bytes_at j S m0 c = b1" using p by (simp add: bytes_at_def)
    have "params (heap mj a) = attach S G b1 (params (heap m1 a))"
      using read_record_params [OF r iv g assms(2)] .
    then have "params (heap mj a) =
        foldl (\<lambda>ps bs. attach S G bs ps) (params (heap m2 a))
          (map (\<lambda>k. bytes_at k S m0 c) [Suc i..<Suc j])"
      using le ps b by simp
    with read_record_group_id [OF r g] show ?thesis by simp
  qed
qed

lemma attach_keeps: "map_of ps x \<noteq> None \<Longrightarrow> map_of (attach S G bs ps) x \<noteq> None"
  by (auto simp add: attach_def update_conv' split: option.splits sum.splits)

lemma foldl_attach_keeps:
  "map_of ps x \<noteq> None \<Longrightarrow> map_of (foldl (\<lambda>ps bs. attach S G bs ps) ps bss) x \<noteq> None"
proof (induction bss arbitrary: ps)
  case Nil
  then show ?case by simp
next
  case (Cons b bss)
  have "map_of (attach S G b ps) x \<noteq> None" using Cons.prems by (rule attach_keeps)
  then have "map_of (foldl (\<lambda>ps bs. attach S G bs ps) (attach S G b ps) bss) x \<noteq> None"
    by (rule Cons.IH)
  then show ?case by simp
qed

lemma read_record_attach:
  assumes "read_record S m bytes = Inr (Next m' bytes')"
    and "group_id_of bytes = G" and "0 < G" and "name_of S bytes = Some n"
  shows "map_of (attach S G bytes ps) (upper S n) \<noteq> None"
proof -
  from read_record_cases [OF assms(1)] assms(2,3,4)
  have r: "read_parameter S m G n (payload_of bytes) = Inr m'" by auto
  have "\<exists>p. Param_read S (upper S n) (payload_of bytes) = Inr p"
  proof (cases "map_of (groups m) (ById G)")
    case None
    from read_parameter_new [OF r None] show ?thesis by blast
  next
    case (Some a)
    from read_parameter_old [OF r Some] show ?thesis by blast
  qed
  then show ?thesis using assms(2,4) by (auto simp add: attach_def update_conv')
qed

lemma foldl_attach_holds:
  assumes "k \<in> set ks"
    and "\<And>ps. map_of (attach S G (f k) ps) x \<noteq> None"
  shows "map_of (foldl (\<lambda>ps bs. attach S G bs ps) ps0 (map f ks)) x \<noteq> None"
  using assms(1)
proof (induction ks arbitrary: ps0)
  case Nil
  then show ?case by simp
next
  case (Cons k' ks)
  show ?case
  proof (cases "k = k'")
    case True
    then show ?thesis using assms(2) [of ps0] by (simp add: foldl_attach_keeps)
  next
    case False
    with Cons show ?thesis by simp
  qed
qed


text \<open>
  C7. Pass \<open>i\<close> of the loop reads a parameter record of group \<open>G\<close> while the dictionary
  has no key \<open>G\<close>, and a later pass \<open>j\<close> reads the group record of \<open>G\<close> (group-id byte
  \<open>-G\<close>). Then pass \<open>i\<close> creates one group object \<open>a\<close>, which no key reached before,
  under the key \<open>G\<close>, with no name, no description and that parameter alone. After pass
  \<open>j\<close> the key \<open>G\<close> still reaches \<open>a\<close>, and so does the key of the record's name;
  \<open>a\<close> has the record's name and description, and its parameters are those that the
  records of the passes \<open>i\<close> to \<open>j - 1\<close> attached to group \<open>G\<close>, in that order (a later
  record of the same name replacing the earlier one): every parameter record of \<open>G\<close>
  among them has its name as a key of \<open>a\<close>.
\<close>

theorem placeholder_group_adopted:
  assumes p1: "pass i S (Manager h) chunk = Some (m1, b1)"
    and g1: "group_id_of b1 = G" and G: "0 < G"
    and no: "map_of (groups m1) (ById G) = None"
    and ij: "i < j"
    and p3: "pass j S (Manager h) chunk = Some (m3, b3)"
    and g3: "group_id_of b3 = - G"
    and r3: "read_record S m3 b3 = Inr (Next m4 b4)"
  shows "\<exists>a m2 b2 nm.
      read_record S m1 b1 = Inr (Next m2 b2)
    \<and> a \<notin> snd ` set (groups m1)
    \<and> map_of (groups m2) (ById G) = Some a
    \<and> g_name (heap m2 a) = None \<and> g_desc (heap m2 a) = None
    \<and> params (heap m2 a) = attach S G b1 []
    \<and> name_of S b3 = Some nm
    \<and> map_of (groups m4) (ById G) = Some a
    \<and> map_of (groups m4) (ByName nm) = Some a
    \<and> g_name (heap m4 a) = Some nm
    \<and> g_desc (heap m4 a) = Some (group_desc_of S b3)
    \<and> params (heap m4 a) =
        foldl (\<lambda>ps bs. attach S G bs ps) [] (map (\<lambda>k. bytes_at k S (Manager h) chunk) [i..<j])
    \<and> (\<forall>k n. i \<le> k \<and> k < j \<and> group_id_of (bytes_at k S (Manager h) chunk) = G
              \<and> name_of S (bytes_at k S (Manager h) chunk) = Some n
          \<longrightarrow> map_of (params (heap m4 a)) (upper S n) \<noteq> None)"
proof -
  let ?P = "\<lambda>k. pass k S (Manager h) chunk"
  let ?B = "\<lambda>k. bytes_at k S (Manager h) chunk"
  have iv0: "directory_inv (Manager h)" by (rule Manager_inv)
  have iv1: "directory_inv m1" using pass_inv [OF iv0 p1] .
  have iv3: "directory_inv m3" using pass_inv [OF iv0 p3] .
  \<comment> \<open>the first pass on a record of the group\<close>
  from pass_earlier [OF p3, of "Suc i"] ij obtain m2 b2 where p2: "?P (Suc i) = Some (m2, b2)"
    by fastforce
  from pass_SucD [OF p2] p1 have r1: "read_record S m1 b1 = Inr (Next m2 b2)" by simp
  from read_record_cases [OF r1] g1 G obtain n1 where
    n1: "name_of S b1 = Some n1" and
    rp: "read_parameter S m1 G n1 (payload_of b1) = Inr m2" by auto
  from read_parameter_new [OF rp no] obtain p where
    pr: "Param_read S (upper S n1) (payload_of b1) = Inr p" and
    m2: "m2 = m1 \<lparr> heap := (heap m1) (fresh m1 := \<lparr> g_name = None, g_desc = None, params = [(upper S n1, p)] \<rparr>),
               fresh := Suc (fresh m1),
               groups := AList.update (ById G) (fresh m1) (groups m1) \<rparr>" by blast
  define a where "a = fresh m1"
  have new: "a \<notin> snd ` set (groups m1)"
    using iv1 by (auto simp add: a_def directory_inv_def allocated_iff)
  have ga2: "map_of (groups m2) (ById G) = Some a" by (simp add: m2 a_def update_conv')
  have nm2: "g_name (heap m2 a) = None" "g_desc (heap m2 a) = None" by (simp_all add: m2 a_def)
  have ps2: "params (heap m2 a) = attach S G b1 []"
    using g1 n1 pr by (simp add: m2 a_def attach_def)
  \<comment> \<open>the passes up to the group record\<close>
  have le: "Suc i \<le> j" using ij by simp
  from group_kept [OF iv0 G p2 ga2 le p3] have
    ga3: "map_of (groups m3) (ById G) = Some a" and
    ps3: "params (heap m3 a) =
      foldl (\<lambda>ps bs. attach S G bs ps) (params (heap m2 a)) (map ?B [Suc i..<j])" by simp_all
  have b1: "?B i = b1" using p1 by (simp add: bytes_at_def)
  have "[i..<j] = i # [Suc i..<j]" using ij by (simp add: upt_conv_Cons)
  then have ps3': "params (heap m3 a) = foldl (\<lambda>ps bs. attach S G bs ps) [] (map ?B [i..<j])"
    using ps3 ps2 b1 by simp
  \<comment> \<open>the group record\<close>
  from read_record_cases [OF r3] g3 G obtain nm where
    nm: "name_of S b3 = Some nm" and
    rg: "read_group S m3 G nm (payload_of b3) = Inr m4" by auto
  from read_group_old [OF rg ga3] obtain sz rest where
    pl: "payload_of b3 = sz # rest" and
    m4: "m4 = m3 \<lparr> heap := (heap m3) (a := (heap m3 a) \<lparr> g_name := Some nm,
                        g_desc := Some (of_bytes S (take (nat (uint8 sz)) rest)) \<rparr>),
               groups := AList.update (ByName nm) a (groups m3) \<rparr>" by blast
  have ds: "group_desc_of S b3 = of_bytes S (take (nat (uint8 sz)) rest)"
    using pl by (simp add: group_desc_of_def payload_of_def)
  have ga4: "map_of (groups m4) (ById G) = Some a" "map_of (groups m4) (ByName nm) = Some a"
    using ga3 by (simp_all add: m4 update_conv')
  have nm4: "g_name (heap m4 a) = Some nm" "g_desc (heap m4 a) = Some (group_desc_of S b3)"
    by (simp_all add: m4 ds)
  have ps4: "params (heap m4 a) = foldl (\<lambda>ps bs. attach S G bs ps) [] (map ?B [i..<j])"
    using ps3' by (simp add: m4)
  \<comment> \<open>every parameter record of the group in between is held\<close>
  have held: "map_of (params (heap m4 a)) (upper S n) \<noteq> None"
    if k: "i \<le> k" "k < j" and gk: "group_id_of (?B k) = G" and nk: "name_of S (?B k) = Some n"
    for k n
  proof -
    from pass_earlier [OF p3, of "Suc k"] k obtain mk' bk' where pk': "?P (Suc k) = Some (mk', bk')"
      by fastforce
    from pass_SucD [OF pk'] obtain mk bk where
      pk: "?P k = Some (mk, bk)" and rk: "read_record S mk bk = Inr (Next mk' bk')" by blast
    have bk: "?B k = bk" using pk by (simp add: bytes_at_def)
    have at: "map_of (attach S G (?B k) ps) (upper S n) \<noteq> None" for ps
      using read_record_attach [OF rk _ G, of n ps] gk nk bk by simp
    have "k \<in> set [i..<j]" using k by simp
    from foldl_attach_holds [of k "[i..<j]" S G ?B "upper S n" "[]", OF this at]
    show ?thesis by (simp add: ps4)
  qed
  from r1 new ga2 nm2 ps2 nm ga4 nm4 ps4 held show ?thesis by blast
qed


lemmas ev = pass.simps read_record_def read_parameter_def read_group_def setdefault_group_def
  add_param_def Param_read_def add_group_def ascii_def ascii_upper_def is_ascii_def Manager_def
  Group_def int8_def int16_def uint16_def uint8_def slice_from_def total_bytes_def num_elements_def
  chars_in_name_of_def offset_to_next_of_def group_id_of_def name_of_def Let_def payload_of_def
  bytes_at_def group_desc_of_def

lemma sc0: "pass 0 ascii (Manager Header_default) scenario_chunk = Some (Manager Header_default, scenario_chunk)"
  by (simp add: scenario_chunk_def)

lemma sc1: "bytes_at 1 ascii (Manager Header_default) scenario_chunk = drop 9 scenario_chunk"
  unfolding One_nat_def by (simp add: ev scenario_chunk_def)

lemma sc2: "pass 2 ascii (Manager Header_default) scenario_chunk = Some (scenario_before, drop 18 scenario_chunk)"
  unfolding scenario_before_def numeral_2_eq_2 by (simp add: ev scenario_chunk_def)

lemma sc3: "read_record ascii scenario_before (drop 18 scenario_chunk) = Inr (Next scenario_after [0, 0])"
  unfolding scenario_after_def scenario_before_def numeral_2_eq_2 by (simp add: ev scenario_chunk_def)

lemma sc4: "group_id_of scenario_chunk = 1" "group_id_of (drop 9 scenario_chunk) = 1"
  "group_id_of (drop 18 scenario_chunk) = - 1"
  "name_of ascii scenario_chunk = Some [0x41]" "name_of ascii (drop 9 scenario_chunk) = Some [0x42]"
  "name_of ascii (drop 18 scenario_chunk) = Some [0x50]"
  "upper ascii [0x41] = [0x41]" "upper ascii [0x42] = [0x42]"
  "group_desc_of ascii (drop 18 scenario_chunk) = [0x64]"
  by (simp_all add: ev scenario_chunk_def)

theorem placeholder_group_adopted_witness:
  "\<exists>a. map_of (groups scenario_after) (ById 1) = Some a
     \<and> map_of (groups scenario_after) (ByName [0x50]) = Some a
     \<and> g_name (heap scenario_after a) = Some [0x50]
     \<and> g_desc (heap scenario_after a) = Some [0x64]
     \<and> map_of (params (heap scenario_after a)) [0x41] \<noteq> None
     \<and> map_of (params (heap scenario_after a)) [0x42] \<noteq> None"
proof -
  have no: "map_of (groups (Manager Header_default :: byte list manager)) (ById 1) = None"
    by (simp add: Manager_def)
  have b0: "bytes_at 0 ascii (Manager Header_default) scenario_chunk = scenario_chunk"
    by (simp add: bytes_at_def scenario_chunk_def)
  have G: "(0::int) < 1" and ij: "(0::nat) < 2" by simp_all
  from placeholder_group_adopted [OF sc0 sc4(1) G no ij sc2 sc4(3) sc3]
  obtain a nm where
    nm: "name_of ascii (drop 18 scenario_chunk) = Some nm" and
    a: "map_of (groups scenario_after) (ById 1) = Some a"
       "map_of (groups scenario_after) (ByName nm) = Some a"
       "g_name (heap scenario_after a) = Some nm"
       "g_desc (heap scenario_after a) = Some (group_desc_of ascii (drop 18 scenario_chunk))"
    and held: "\<forall>k n. 0 \<le> k \<and> k < 2
        \<and> group_id_of (bytes_at k ascii (Manager Header_default) scenario_chunk) = 1
        \<and> name_of ascii (bytes_at k ascii (Manager Header_default) scenario_chunk) = Some n
        \<longrightarrow> map_of (params (heap scenario_after a)) (upper ascii n) \<noteq> None"
    by blast
  have nm': "nm = [0x50]" using nm sc4(6) by simp
  have h0: "map_of (params (heap scenario_after a)) (upper ascii [0x41]) \<noteq> None"
    using held [rule_format, of 0 "[0x41]"] b0 sc4(1,4) by simp
  have h1: "map_of (params (heap scenario_after a)) (upper ascii [0x42]) \<noteq> None"
    using held [rule_format, of 1 "[0x42]"] sc1 sc4(2,5) by simp
  show ?thesis
    using a h0 h1 unfolding nm' sc4(7,8,9) by blast
qed


theorem read_record_next_position_witness:
  "read_record ascii scenario_before (drop 18 scenario_chunk) = Inr (Next scenario_after [0, 0])
   \<and> 2 + \<bar>chars_in_name_of (drop 18 scenario_chunk)\<bar> + offset_to_next_of (drop 18 scenario_chunk) = 7
   \<and> [0, 0] = drop (18 + nat (2 + \<bar>chars_in_name_of (drop 18 scenario_chunk)\<bar>
                                  + offset_to_next_of (drop 18 scenario_chunk))) scenario_chunk"
proof -
  have e: "2 + \<bar>chars_in_name_of (drop 18 scenario_chunk)\<bar> + offset_to_next_of (drop 18 scenario_chunk) = 7"
    by (simp add: ev scenario_chunk_def)
  then have h: "0 \<le> 2 + \<bar>chars_in_name_of (drop 18 scenario_chunk)\<bar>
      + offset_to_next_of (drop 18 scenario_chunk)" by simp
  from read_record_next_position [OF sc3 h] sc3 e show ?thesis by blast
qed

text \<open>
  C3 as the specification states it fails on a negative sum. In \<open>backward_chunk\<close> the
  second record starts at position 9 and has \<open>2 + |L| + next_offset = -2\<close>; the claimed
  position is 7, and the slice \<open>bytes[-2:]\<close> of the code is the last two bytes of the
  chunk, position 16.
\<close>

theorem read_record_backward_counterexample:
  "map_option snd (pass 1 ascii (Manager Header_default) backward_chunk) = Some (drop 9 backward_chunk)
   \<and> 2 + \<bar>chars_in_name_of (drop 9 backward_chunk)\<bar> + offset_to_next_of (drop 9 backward_chunk) = - 2
   \<and> map_option snd (pass 2 ascii (Manager Header_default) backward_chunk) = Some (drop 16 backward_chunk)
   \<and> drop 16 backward_chunk \<noteq> drop 7 backward_chunk"
proof -
  have p1: "map_option snd (pass 1 ascii (Manager Header_default) backward_chunk) = Some (drop 9 backward_chunk)"
    unfolding One_nat_def by (simp add: ev backward_chunk_def)
  have p2: "map_option snd (pass 2 ascii (Manager Header_default) backward_chunk) = Some (drop 16 backward_chunk)"
    unfolding numeral_2_eq_2 by (simp add: ev backward_chunk_def)
  have p3: "2 + \<bar>chars_in_name_of (drop 9 backward_chunk)\<bar> + offset_to_next_of (drop 9 backward_chunk) = - 2"
    by (simp add: ev backward_chunk_def)
  have p4: "drop 16 backward_chunk \<noteq> drop 7 backward_chunk"
    by (simp add: backward_chunk_def)
  from p1 p2 p3 p4 show ?thesis by blast
qed

section \<open>Properties of \<open>Manager.parameter_blocks\<close>\<close>

lemma ceiling_blocks: "nat \<lceil>(4 + real t) / 512\<rceil> = (4 + t + 511) div 512"
proof -
  have "\<lceil>(4 + real t) / 512\<rceil> = \<lceil>real_of_int (int (4 + t)) / real_of_int 512\<rceil>" by simp
  also have "\<dots> = - ((- int (4 + t)) div 512)"
    by (simp only: ceiling_divide_eq_div)
  finally have "\<lceil>(4 + real t) / 512\<rceil> = - ((- int (4 + t)) div 512)" .
  then show ?thesis by linarith
qed


text \<open>\<open>parameter_blocks\<close> is the least number of blocks that hold four bytes and the
  sizes summed over the values of the dictionary, one value for every key.\<close>

lemma parameter_blocks_least:
  assumes "parameter_blocks S m = Inr n"
  shows "\<exists>t. sum_sizes (\<lambda>a. Group_binary_size S (heap m a)) (map snd (groups m)) = Inr t
     \<and> 4 + t \<le> 512 * n \<and> (\<forall>k. 4 + t \<le> 512 * k \<longrightarrow> n \<le> k)"
proof -
  from assms obtain t where
    t: "sum_sizes (\<lambda>a. Group_binary_size S (heap m a)) (map snd (groups m)) = Inr t"
    and n: "n = nat \<lceil>(4 + real t) / 512\<rceil>"
    by (auto simp add: parameter_blocks_def split: sum.splits)
  have "n = (4 + t + 511) div 512" using n by (simp only: ceiling_blocks)
  then have "4 + t \<le> 512 * n \<and> (\<forall>k. 4 + t \<le> 512 * k \<longrightarrow> n \<le> k)" by auto
  with t show ?thesis by blast
qed

lemma wide_group_eq:
  "wide_group = \<lparr> header = Header_default,
       heap = (\<lambda>a. Group None None) (0 := Group (Some [0x41]) (Some (replicate 250 0x64))),
       fresh = Suc 0, groups = [(ByName [0x41], 0), (ById 1, 0)] \<rparr>"
  by (simp add: wide_group_def add_group_def Manager_def ascii_def ascii_upper_def Let_def)

lemma wide_size: "Group_binary_size ascii (Group (Some [0x41]) (Some (replicate 250 0x64))) = Inr 256"
  by (simp add: Group_binary_size_def ascii_def is_ascii_def list_all_iff)


text \<open>
  C5 (the code does otherwise): a manager that holds one group, of binary size 256. The
  dictionary reaches it under its number and under its name, the sum takes it twice,
  and \<open>parameter_blocks\<close> is 2, where one block holds the \<open>4 + 256\<close> bytes of the
  directory.
\<close>

theorem parameter_blocks_counts_twice:
  "map snd (groups wide_group) = [0, 0]
   \<and> Group_binary_size ascii (heap wide_group 0) = Inr 256
   \<and> (4 :: nat) + 256 \<le> 512 * 1
   \<and> parameter_blocks ascii wide_group = Inr 2"
  by (simp add: wide_group_eq parameter_blocks_def wide_size)


section \<open>Properties of \<open>Manager.check_metadata\<close>\<close>

text \<open>
  C8, as the code has it. When the point count, the scale factor and the frame rate of
  the header agree with POINT:USED, POINT:SCALE and POINT:RATE, the frame rate is
  finite and not zero, and ANALOG:USED and ANALOG:RATE are read without an exception
  (an absent one counts as 0), ANALOG:RATE being finite: if the analog count of the
  header differs from \<open>ANALOG:USED * (ANALOG:RATE / frame rate)\<close>, \<open>check_metadata\<close>
  raises the AssertionError that reports the header's count with ANALOG:USED,
  ANALOG:RATE and the frame rate; if it equals it, this check passes and
  \<open>check_metadata\<close> goes on to the check of the data block.
\<close>

theorem analog_count_check:
  assumes "points_per_frame S m = Inr (point_count (header m))"
    and "Manager_scale_factor S m = Inr sf" and "float_eq (scale_factor (header m)) sf"
    and "Manager_frame_rate S m = Inr (Fin fr)" and "frame_rate (header m) = Fin fr"
    and "fr \<noteq> 0"
    and "analog_per_frame S m = Inr used" and "analog_frame_rate S m = Inr (Fin rate)"
  shows "(real_of_int (analog_count (header m)) \<noteq> real_of_int used * (rate / fr)
          \<longrightarrow> check_metadata S m =
                Inl (AssertionError (InconsistentAnalogCount (analog_count (header m)) used (Fin rate) (Fin fr))))
       \<and> (real_of_int (analog_count (header m)) = real_of_int used * (rate / fr)
          \<longrightarrow> check_metadata S m =
              (case get_uint16 S m ''POINT'' ''DATA_START'' of
                 Inl e \<Rightarrow> Inl e
               | Inr start \<Rightarrow>
                   if data_block (header m) \<noteq> start
                   then Inl (AssertionError (InconsistentDataBlock (data_block (header m)) start))
                   else Inr (filter (\<lambda>(g, p). get S m g p = None) warned)))"
  using assms by (simp add: check_metadata_def)

lemma float32_values:
  "float32 0 0 0x80 0xBF = Fin (- 1)" "float32 0 0 0x70 0x42 = Fin 60"
  "float32 0 0 0xF0 0x42 = Fin 120" "float32 0 0 0 0 = Fin 0"
  by (simp_all add: float32_def uint32_def Let_def)

lemmas lookups = points_per_frame_def Manager_scale_factor_def Manager_frame_rate_def
  analog_per_frame_def analog_frame_rate_def get_uint16_def get_float_def get_def lit_def
  uint16_value_def float_value_def uint16_def ascii_def metadata_manager_def float32_values

lemma metadata_lookups:
  "points_per_frame ascii (metadata_manager h r0 r1 r2 r3) = Inr 2"
  "Manager_scale_factor ascii (metadata_manager h r0 r1 r2 r3) = Inr (Fin (- 1))"
  "Manager_frame_rate ascii (metadata_manager h r0 r1 r2 r3) = Inr (float32 r0 r1 r2 r3)"
  "analog_per_frame ascii (metadata_manager h r0 r1 r2 r3) = Inr 4"
  "analog_frame_rate ascii (metadata_manager h r0 r1 r2 r3) = Inr (Fin 120)"
  "get_uint16 ascii (metadata_manager h r0 r1 r2 r3) ''POINT'' ''DATA_START'' = Inr 3"
  "header (metadata_manager h r0 r1 r2 r3) = h"
  by (simp_all add: lookups)

lemma metadata_warnings:
  "filter (\<lambda>(g, p). get ascii (metadata_manager h r0 r1 r2 r3) g p = None) warned =
     [(''POINT'', ''LABELS''), (''POINT'', ''DESCRIPTIONS''),
      (''ANALOG'', ''LABELS''), (''ANALOG'', ''DESCRIPTIONS'')]"
  by (simp add: warned_def lookups)

lemma read_loop_numeral:
  "read_loop (numeral k) S m bytes =
    (if bytes = [] then Some (Inr m)
     else (case read_record S m bytes of
             Inl e \<Rightarrow> Some (Inl e)
           | Inr Break \<Rightarrow> Some (Inr m)
           | Inr (Next m' bytes') \<Rightarrow> read_loop (pred_numeral k) S m' bytes'))"
  by (simp add: numeral_eq_Suc)

lemma metadata_manager_read:
  "read_loop 20 ascii (Manager h) (metadata_chunk r0 r1 r2 r3) = Some (Inr (metadata_manager h r0 r1 r2 r3))"
  by (simp add: ev read_loop_numeral metadata_chunk_def metadata_manager_def)

theorem analog_count_check_witness:
  "check_metadata ascii (metadata_manager (consistent_header \<lparr> analog_count := 7 \<rparr>) 0 0 0x70 0x42)
     = Inl (AssertionError (InconsistentAnalogCount 7 4 (Fin 120) (Fin 60)))
   \<and> check_metadata ascii (metadata_manager consistent_header 0 0 0x70 0x42)
     = Inr [(''POINT'', ''LABELS''), (''POINT'', ''DESCRIPTIONS''),
            (''ANALOG'', ''LABELS''), (''ANALOG'', ''DESCRIPTIONS'')]"
proof -
  let ?m = "metadata_manager consistent_header 0 0 0x70 0x42"
  let ?m' = "metadata_manager (consistent_header \<lparr> analog_count := 7 \<rparr>) 0 0 0x70 0x42"
  have fr: "(60::real) \<noteq> 0" by simp
  have rate: "float32 0 0 0x70 0x42 = Fin 60" by (rule float32_values)
  have a: "check_metadata ascii ?m' = Inl (AssertionError (InconsistentAnalogCount 7 4 (Fin 120) (Fin 60)))"
    using analog_count_check [of ascii ?m' "Fin (- 1)" 60 4 120]
    by (simp add: metadata_lookups rate consistent_header_def Header_default_def)
  have b: "check_metadata ascii ?m = Inr [(''POINT'', ''LABELS''), (''POINT'', ''DESCRIPTIONS''),
            (''ANALOG'', ''LABELS''), (''ANALOG'', ''DESCRIPTIONS'')]"
    using analog_count_check [of ascii ?m "Fin (- 1)" 60 4 120]
    by (simp add: metadata_lookups metadata_warnings rate consistent_header_def Header_default_def)
  from a b show ?thesis by blast
qed


lemma zero_rate_header_read:
  "Header_read zero_rate_file =
     (Inr zero_rate_header, zero_rate_file \<lparr> pos := 512, reads := [(0, 512)] \<rparr>)"
  by (simp add: Header_read_def handle_seek_def handle_read_def zero_rate_file_def Let_def
      uint8_def uint16_def float32_values zero_rate_header_def Header_default_def nth_append)

lemma metadata_manager_read_padded:
  "read_loop 20 ascii (Manager h) (metadata_chunk r0 r1 r2 r3 @ replicate 394 0)
     = Some (Inr (metadata_manager h r0 r1 r2 r3))"
  by (simp add: ev read_loop_numeral metadata_chunk_def metadata_manager_def)

lemma zero_rate_check:
  "check_metadata ascii (metadata_manager zero_rate_header 0 0 0 0) = Inl ZeroDivisionError"
  by (simp add: metadata_lookups float32_values check_metadata_def zero_rate_header_def Header_default_def)

lemma zero_rate_directory:
  "parameter_block zero_rate_header = 2"
  "handle_seek (zero_rate_file \<lparr> pos := 512, reads := [(0, 512)] \<rparr>) 512
     = (Inr (), zero_rate_file \<lparr> pos := 512, reads := [(0, 512)] \<rparr>)"
  "handle_read (zero_rate_file \<lparr> pos := 512, reads := [(0, 512)] \<rparr>) 4
     = ([0x00, 0x00, 0x01, 0x54], zero_rate_file \<lparr> pos := 516, reads := [(0, 512), (512, 4)] \<rparr>)"
  "handle_read (zero_rate_file \<lparr> pos := 516, reads := [(0, 512), (512, 4)] \<rparr>) 508
     = (metadata_chunk 0 0 0 0 @ replicate 394 0,
        zero_rate_file \<lparr> pos := 1024, reads := [(0, 512), (512, 4), (516, 508)] \<rparr>)"
  by (simp_all add: handle_seek_def handle_read_def zero_rate_file_def Let_def
      zero_rate_header_def Header_default_def metadata_chunk_def)


text \<open>
  C8 as the specification states it fails when the frame rate is zero. The file
  \<open>zero_rate_file\<close> has the frame rate 0.0 in the header and in POINT:RATE, the analog
  count 1 in the header, ANALOG:USED = 4 and ANALOG:RATE = 120.0: the count differs
  from any value of \<open>4 * (120 / 0)\<close>, and \<open>check_metadata\<close> (so the constructor of
  \<open>Reader\<close>) raises ZeroDivisionError, not the AssertionError of the check.
\<close>

theorem zero_frame_rate_counterexample:
  "Header_read zero_rate_file =
     (Inr zero_rate_header, zero_rate_file \<lparr> pos := 512, reads := [(0, 512)] \<rparr>)
   \<and> frame_rate zero_rate_header = Fin 0
   \<and> analog_count zero_rate_header = 1
   \<and> Manager_frame_rate ascii (metadata_manager zero_rate_header 0 0 0 0) = Inr (Fin 0)
   \<and> analog_per_frame ascii (metadata_manager zero_rate_header 0 0 0 0) = Inr 4
   \<and> analog_frame_rate ascii (metadata_manager zero_rate_header 0 0 0 0) = Inr (Fin 120)
   \<and> check_metadata ascii (metadata_manager zero_rate_header 0 0 0 0) = Inl ZeroDivisionError
   \<and> Reader_init 20 ascii zero_rate_file =
       Some (Inl ZeroDivisionError,
             zero_rate_file \<lparr> pos := 1024, reads := [(0, 512), (512, 4), (516, 508)] \<rparr>)"
proof -
  have h: "frame_rate zero_rate_header = Fin 0" "analog_count zero_rate_header = 1"
    by (simp_all add: zero_rate_header_def)
  have r: "Reader_init 20 ascii zero_rate_file =
       Some (Inl ZeroDivisionError,
             zero_rate_file \<lparr> pos := 1024, reads := [(0, 512), (512, 4), (516, 508)] \<rparr>)"
    by (simp add: Reader_init_def zero_rate_header_read zero_rate_directory uint8_def
        metadata_manager_read_padded zero_rate_check)
  from zero_rate_header_read h zero_rate_check r show ?thesis
    by (simp add: metadata_lookups float32_values)
qed

end
